theory Spec2Isabelle
  imports Main
begin

section \<open>Go SDK: the event processor (event\_processor.go)\<close>

text \<open>
  The Go \<^verbatim>\<open>EventData\<close> struct. \<^verbatim>\<open>Latency\<close> is an \<^verbatim>\<open>int64\<close>; no arithmetic is done on
  it here, so it is kept as an integer.
\<close>

record GoEventData =
  SessionID :: string
  PrimitiveType :: string
  PrimitiveName :: string
  Latency :: int
  Success :: bool
  Input :: string
  Output :: string

text \<open>
  The fields of \<^verbatim>\<open>AgnostConfig\<close> that the Go code below reads. \<^verbatim>\<open>MaxRetries\<close> and
  \<^verbatim>\<open>BatchSize\<close> are Go \<^verbatim>\<open>int\<close>s and \<^verbatim>\<open>RetryDelay\<close> a \<^verbatim>\<open>time.Duration\<close>; the loop counter
  of \<^verbatim>\<open>sendEvent\<close> is modelled on unbounded integers, which is exact for every
  \<^verbatim>\<open>MaxRetries\<close> below the largest \<^verbatim>\<open>int\<close>.
\<close>

record GoConfig =
  DisableInput :: bool
  DisableOutput :: bool
  EnableRequestQueuing :: bool
  BatchSize :: int
  MaxRetries :: int
  RetryDelay :: int
  HasIdentify :: bool

text \<open>What \<^verbatim>\<open>httpClient.Do\<close> can answer: an error, or a response with a status code.\<close>

datatype http_outcome = TransportError | Status int

datatype send_failure = DoFailed | BadStatus int

datatype send_error = RequestError | RetriesExhausted int "send_failure option"

text \<open>
  The observable actions of the processor. Each one carries the position in the flushed
  batch of the event it belongs to, so that the actions of one event can be told from
  those of its neighbours.
\<close>

datatype ep_action = HttpDo nat | SleepFor nat int | WarnFailedToSend nat

fun action_pos :: "ep_action \<Rightarrow> nat" where
  "action_pos (HttpDo i) = i"
| "action_pos (SleepFor i d) = i"
| "action_pos (WarnFailedToSend i) = i"

fun is_attempt :: "ep_action \<Rightarrow> bool" where
  "is_attempt (HttpDo i) = True"
| "is_attempt _ = False"

text \<open>
  The retry loop of \<^verbatim>\<open>sendEvent\<close>:
  \<^verbatim>\<open>for attempt := 0; attempt <= ep.config.MaxRetries; attempt++\<close>. The environment is
  the function \<open>net\<close> from the attempt number to what \<^verbatim>\<open>Do\<close> answers. The result is the
  error (or \<open>None\<close> for \<^verbatim>\<open>nil\<close>) with the actions performed, in order.
\<close>

function send_loop ::
  "GoConfig \<Rightarrow> (int \<Rightarrow> http_outcome) \<Rightarrow> nat \<Rightarrow> int \<Rightarrow> send_failure option \<Rightarrow>
   send_error option \<times> ep_action list" where
  "send_loop cfg net i attempt lastErr =
     (if attempt \<le> MaxRetries cfg then
        (let pre = (if attempt > 0 then [SleepFor i (RetryDelay cfg)] else []) in
         case net attempt of
           TransportError \<Rightarrow>
             (case send_loop cfg net i (attempt + 1) (Some DoFailed) of
                (r, tr) \<Rightarrow> (r, pre @ HttpDo i # tr))
         | Status c \<Rightarrow>
             if 200 \<le> c \<and> c < 300 then (None, pre @ [HttpDo i])
             else (case send_loop cfg net i (attempt + 1) (Some (BadStatus c)) of
                (r, tr) \<Rightarrow> (r, pre @ HttpDo i # tr)))
      else (Some (RetriesExhausted (MaxRetries cfg) lastErr), []))"
  by pat_completeness auto
termination
  by (relation "measure (\<lambda>(cfg, net, i, attempt, lastErr). nat (MaxRetries cfg + 1 - attempt))")
     auto

declare send_loop.simps [simp del]

text \<open>
  \<^verbatim>\<open>sendEvent\<close>: marshal the event (which cannot fail for a struct of strings, an integer
  and a boolean), build the request (\<open>url_ok\<close> is false when \<^verbatim>\<open>http.NewRequest\<close> rejects
  the URL), then run the retry loop.
\<close>

definition sendEvent ::
  "GoConfig \<Rightarrow> bool \<Rightarrow> (int \<Rightarrow> http_outcome) \<Rightarrow> nat \<Rightarrow> GoEventData \<Rightarrow>
   send_error option \<times> ep_action list" where
  "sendEvent cfg url_ok net i event =
     (if \<not> url_ok then (Some RequestError, [])
      else send_loop cfg net i 0 None)"

text \<open>
  The processor's state: the buffered channel \<^verbatim>\<open>queue\<close> (capacity 100), the
  \<^verbatim>\<open>batchQueue\<close> slice and whether the context has been cancelled.
\<close>

record EventProcessor =
  queue :: "GoEventData list"
  batchQueue :: "GoEventData list"
  cancelled :: bool

definition queue_capacity :: nat where
  "queue_capacity = 100"

text \<open>
  The loop of \<^verbatim>\<open>flushBatch\<close> over the batch it took: each event is sent on its own, and
  a failed send is only logged.
\<close>

fun send_batch ::
  "GoConfig \<Rightarrow> bool \<Rightarrow> (nat \<Rightarrow> int \<Rightarrow> http_outcome) \<Rightarrow> nat \<Rightarrow> GoEventData list \<Rightarrow>
   ep_action list" where
  "send_batch cfg url_ok net i [] = []"
| "send_batch cfg url_ok net i (e # es) =
     (case sendEvent cfg url_ok (net i) i e of
        (None, tr) \<Rightarrow> tr @ send_batch cfg url_ok net (Suc i) es
      | (Some err, tr) \<Rightarrow> tr @ WarnFailedToSend i # send_batch cfg url_ok net (Suc i) es)"

text \<open>
  \<^verbatim>\<open>flushBatch\<close>: under the mutex, return when the batch is empty, otherwise take the
  batch and reset \<^verbatim>\<open>batchQueue\<close>; then send the events taken.
\<close>

definition flushBatch ::
  "GoConfig \<Rightarrow> bool \<Rightarrow> (nat \<Rightarrow> int \<Rightarrow> http_outcome) \<Rightarrow> EventProcessor \<Rightarrow>
   EventProcessor \<times> ep_action list" where
  "flushBatch cfg url_ok net ep =
     (if length (batchQueue ep) = 0 then (ep, [])
      else (ep\<lparr>batchQueue := []\<rparr>, send_batch cfg url_ok net 0 (batchQueue ep)))"

text \<open>\<^verbatim>\<open>Flush\<close>: flush the batch when it is not empty. The channel is not looked at.\<close>

definition Flush ::
  "GoConfig \<Rightarrow> bool \<Rightarrow> (nat \<Rightarrow> int \<Rightarrow> http_outcome) \<Rightarrow> EventProcessor \<Rightarrow>
   EventProcessor \<times> ep_action list" where
  "Flush cfg url_ok net ep =
     (if length (batchQueue ep) > 0 then flushBatch cfg url_ok net ep else (ep, []))"

text \<open>
  \<^verbatim>\<open>QueueEvent\<close>: a non-blocking send on the channel. When the channel is full the
  \<^verbatim>\<open>default\<close> branch drops the event. (When the context is cancelled and the channel has
  room, Go picks one of the two ready branches; \<open>pick_done\<close> is that choice.)
\<close>

definition QueueEvent :: "bool \<Rightarrow> GoEventData \<Rightarrow> EventProcessor \<Rightarrow> EventProcessor" where
  "QueueEvent pick_done event ep =
     (if length (queue ep) < queue_capacity \<and> \<not> (cancelled ep \<and> pick_done)
      then ep\<lparr>queue := queue ep @ [event]\<rparr>
      else ep)"

section \<open>TypeScript SDK: JavaScript values\<close>

text \<open>
  The values that flow through the TypeScript SDK are untyped (\<^verbatim>\<open>any\<close>). They are
  modelled as plain data: \<^verbatim>\<open>undefined\<close>, \<^verbatim>\<open>null\<close>, booleans, integral numbers, strings,
  arrays, plain objects (own enumerable properties, in insertion order, looked up by the
  first entry of a key) and \<^verbatim>\<open>Error\<close> instances with their message. Functions, symbols,
  cyclic structures and fractional numbers are outside the model.
\<close>

datatype jsval =
    JUndefined
  | JNull
  | JBool bool
  | JNum int
  | JStr string
  | JArr "jsval list"
  | JObj "(string \<times> jsval) list"
  | JErr string

text \<open>JavaScript truthiness.\<close>

fun truthy :: "jsval \<Rightarrow> bool" where
  "truthy JUndefined = False"
| "truthy JNull = False"
| "truthy (JBool b) = b"
| "truthy (JNum n) = (n \<noteq> 0)"
| "truthy (JStr s) = (s \<noteq> [])"
| "truthy (JArr xs) = True"
| "truthy (JObj kvs) = True"
| "truthy (JErr m) = True"

fun nullish :: "jsval \<Rightarrow> bool" where
  "nullish JUndefined = True"
| "nullish JNull = True"
| "nullish _ = False"

text \<open>\<^verbatim>\<open>typeof v === 'object'\<close>, which holds of \<^verbatim>\<open>null\<close> too.\<close>

fun typeof_object :: "jsval \<Rightarrow> bool" where
  "typeof_object JNull = True"
| "typeof_object (JArr xs) = True"
| "typeof_object (JObj kvs) = True"
| "typeof_object (JErr m) = True"
| "typeof_object _ = False"

text \<open>
  \<^verbatim>\<open>prop in obj\<close> and \<^verbatim>\<open>obj.prop\<close>, for the property names this code asks for (none of
  them is a property of \<^verbatim>\<open>Object.prototype\<close> or \<^verbatim>\<open>Array.prototype\<close>): a plain object has
  its own keys, an \<^verbatim>\<open>Error\<close> has \<^verbatim>\<open>message\<close>, arrays and primitives have none. Reading a
  property of \<^verbatim>\<open>null\<close> or \<^verbatim>\<open>undefined\<close> throws; \<open>js_get\<close> is used only where the value
  is known not to be one of them, and \<open>js_get_opt\<close> is the optional chaining \<^verbatim>\<open>v?.prop\<close>.
\<close>

fun has_prop :: "jsval \<Rightarrow> string \<Rightarrow> bool" where
  "has_prop (JObj kvs) k = (k \<in> set (map fst kvs))"
| "has_prop (JErr m) k = (k = ''message'')"
| "has_prop _ k = False"

fun js_get :: "jsval \<Rightarrow> string \<Rightarrow> jsval" where
  "js_get (JObj kvs) k = (case map_of kvs k of Some v \<Rightarrow> v | None \<Rightarrow> JUndefined)"
| "js_get (JErr m) k = (if k = ''message'' then JStr m else JUndefined)"
| "js_get _ k = JUndefined"

definition js_get_opt :: "jsval \<Rightarrow> string \<Rightarrow> jsval" where
  "js_get_opt v k = (if nullish v then JUndefined else js_get v k)"

text \<open>The helper \<^verbatim>\<open>hasattr\<close> of mcp-utils.ts: \<^verbatim>\<open>obj && typeof obj === "object" && prop in obj\<close>.\<close>

definition hasattr :: "jsval \<Rightarrow> string \<Rightarrow> bool" where
  "hasattr obj prop = (truthy obj \<and> typeof_object obj \<and> has_prop obj prop)"

text \<open>
  The two built-in conversions the SDK calls are parameters of the model:
  \<open>toStr\<close> is the text that \<^verbatim>\<open>String(v)\<close> produces where it produces one, and \<open>stringify\<close> is
  \<^verbatim>\<open>JSON.stringify(v)\<close>, which answers a string or \<^verbatim>\<open>undefined\<close>, or throws (\<open>None\<close>).
\<close>

record js_env =
  toStr :: "jsval \<Rightarrow> string"
  stringify :: "jsval \<Rightarrow> jsval option"

text \<open>
  What a called function does: it returns a value or throws one. (A rejected promise is
  a throw at the \<^verbatim>\<open>await\<close>.)
\<close>

datatype outcome = Returned jsval | Threw jsval

text \<open>
  \<^verbatim>\<open>String(v)\<close> and a template literal \<^verbatim>\<open>`${v}`\<close> convert \<open>v\<close> to a string. On the values
  of this model the conversion throws a \<^verbatim>\<open>TypeError\<close> exactly for a plain object with an
  own \<^verbatim>\<open>toString\<close> entry (no entry of the model is a function, and the inherited
  \<^verbatim>\<open>valueOf\<close> answers the object itself, which is no primitive), and for an array one of
  whose elements cannot be converted (\<^verbatim>\<open>Array.prototype.toString\<close> joins the converted
  elements). \<open>js_String\<close> is \<^verbatim>\<open>String(v)\<close> with that throw as \<open>None\<close>.
\<close>

fun unstringable :: "jsval \<Rightarrow> bool" where
  "unstringable (JObj kvs) = (''toString'' \<in> set (map fst kvs))"
| "unstringable (JArr xs) = list_ex unstringable xs"
| "unstringable v = False"

definition js_String :: "js_env \<Rightarrow> jsval \<Rightarrow> string option" where
  "js_String env v = (if unstringable v then None else Some (toStr env v))"

text \<open>
  \<^verbatim>\<open>error instanceof Error ? error.message : String(error)\<close>, which throws where
  \<^verbatim>\<open>String(error)\<close> does.
\<close>

fun error_message :: "js_env \<Rightarrow> jsval \<Rightarrow> string option" where
  "error_message env (JErr m) = Some m"
| "error_message env v = js_String env v"

text \<open>The \<^verbatim>\<open>TypeError\<close> of a failed conversion or property access; its wording is not modelled.\<close>

definition type_error :: jsval where
  "type_error = JErr ''TypeError''"

section \<open>TypeScript SDK: mcp-utils.ts\<close>

text \<open>
  The loop over the content items, shared by both branches of \<^verbatim>\<open>isMcpErrorResponse\<close>:
  the first item with a \<^verbatim>\<open>text\<close> property, or with \<^verbatim>\<open>type === 'text'\<close> and a \<^verbatim>\<open>content\<close>
  property, gives the message through \<^verbatim>\<open>String\<close>, which may throw.
\<close>

datatype text_scan = NoText | FoundText string | ScanThrows

definition scan_String :: "js_env \<Rightarrow> jsval \<Rightarrow> text_scan" where
  "scan_String env v = (case js_String env v of None \<Rightarrow> ScanThrows | Some s \<Rightarrow> FoundText s)"

fun content_text :: "js_env \<Rightarrow> jsval list \<Rightarrow> text_scan" where
  "content_text env [] = NoText"
| "content_text env (item # items) =
     (if hasattr item ''text'' then scan_String env (js_get item ''text'')
      else if hasattr item ''type'' \<and> hasattr item ''content'' \<and> js_get item ''type'' = JStr ''text''
      then scan_String env (js_get item ''content'')
      else content_text env items)"

text \<open>
  What \<^verbatim>\<open>for (const item of content)\<close> iterates: the elements of an array, the characters
  of a string; any other value is not iterable and the loop throws a \<^verbatim>\<open>TypeError\<close>.
\<close>

fun iterate :: "jsval \<Rightarrow> jsval list option" where
  "iterate (JArr xs) = Some xs"
| "iterate (JStr s) = Some (map (\<lambda>c. JStr [c]) s)"
| "iterate _ = None"

definition unknown_error :: jsval where
  "unknown_error = JStr ''Unknown error''"

text \<open>
  The body of the \<^verbatim>\<open>try\<close> block of \<^verbatim>\<open>isMcpErrorResponse\<close>. \<open>Inl m\<close> is an exception with
  message \<open>m\<close> thrown inside it (the wording of the engine's messages is not modelled).
  First the branch for a response wrapped in \<^verbatim>\<open>root\<close>; it falls through (\<open>None\<close>) when
  there is no \<^verbatim>\<open>root\<close> or the root carries no truthy \<^verbatim>\<open>isError\<close>.
\<close>

definition not_iterable :: string where
  "not_iterable = ''content is not iterable''"

definition not_serializable :: string where
  "not_serializable = ''value cannot be converted to JSON''"

definition not_convertible :: string where
  "not_convertible = ''cannot convert object to primitive value''"

definition root_branch :: "js_env \<Rightarrow> jsval \<Rightarrow> (string + bool \<times> jsval) option" where
  "root_branch env response =
     (if hasattr response ''root'' then
        (let result = js_get response ''root'' in
         if hasattr result ''isError'' \<and> truthy (js_get result ''isError'') then
           (if hasattr result ''content'' \<and> truthy (js_get result ''content'') then
              (case iterate (js_get result ''content'') of
                 None \<Rightarrow> Some (Inl not_iterable)
               | Some items \<Rightarrow>
                   (case content_text env items of
                      FoundText m \<Rightarrow> Some (Inr (True, JStr m))
                    | ScanThrows \<Rightarrow> Some (Inl not_convertible)
                    | NoText \<Rightarrow>
                        (case items of
                           first # rest \<Rightarrow>
                             (case js_String env first of
                                Some s \<Rightarrow> Some (Inr (True, JStr s))
                              | None \<Rightarrow> Some (Inl not_convertible))
                         | [] \<Rightarrow> Some (Inr (True, unknown_error)))))
            else Some (Inr (True, unknown_error)))
         else None)
      else None)"

text \<open>
  The branch for \<^verbatim>\<open>isError\<close> on the response itself. After the content array gave no
  text, its first item is returned when it is a string and serialised when
  \<^verbatim>\<open>typeof\<close> says object; otherwise \<^verbatim>\<open>response.message || response.error || "Unknown error"\<close>.
\<close>

definition message_or_error :: "jsval \<Rightarrow> jsval" where
  "message_or_error response =
     (if truthy (js_get response ''message'') then js_get response ''message''
      else if truthy (js_get response ''error'') then js_get response ''error''
      else unknown_error)"

definition direct_branch :: "js_env \<Rightarrow> jsval \<Rightarrow> (string + bool \<times> jsval) option" where
  "direct_branch env response =
     (if hasattr response ''isError'' \<and> truthy (js_get response ''isError'') then
        (case (if hasattr response ''content'' then js_get response ''content'' else JUndefined) of
           JArr items \<Rightarrow>
             (case content_text env items of
                FoundText m \<Rightarrow> Some (Inr (True, JStr m))
              | ScanThrows \<Rightarrow> Some (Inl not_convertible)
              | NoText \<Rightarrow>
                  (case items of
                     JStr s # rest \<Rightarrow> Some (Inr (True, JStr s))
                   | first # rest \<Rightarrow>
                       (if typeof_object first then
                          (case stringify env first of
                             None \<Rightarrow> Some (Inl not_serializable)
                           | Some j \<Rightarrow> Some (Inr (True, j)))
                        else Some (Inr (True, message_or_error response)))
                   | [] \<Rightarrow> Some (Inr (True, message_or_error response))))
         | other \<Rightarrow> Some (Inr (True, message_or_error response)))
      else None)"

definition isMcpErrorResponse_try :: "js_env \<Rightarrow> jsval \<Rightarrow> string + bool \<times> jsval" where
  "isMcpErrorResponse_try env response =
     (case root_branch env response of
        Some r \<Rightarrow> r
      | None \<Rightarrow>
          (case direct_branch env response of
             Some r \<Rightarrow> r
           | None \<Rightarrow>
               (case response of
                  JErr m \<Rightarrow> Inr (True, JStr m)
                | other \<Rightarrow> Inr (False, JStr []))))"

text \<open>
  \<^verbatim>\<open>isMcpErrorResponse\<close>: the \<^verbatim>\<open>catch\<close> turns an exception of the body into
  \<^verbatim>\<open>[false, `Error checking response: ...`]\<close>.
\<close>

definition isMcpErrorResponse :: "js_env \<Rightarrow> jsval \<Rightarrow> bool \<times> jsval" where
  "isMcpErrorResponse env response =
     (case isMcpErrorResponse_try env response of
        Inr r \<Rightarrow> r
      | Inl m \<Rightarrow> (False, JStr (''Error checking response: '' @ m)))"

text \<open>
  \<^verbatim>\<open>filterSensitiveArgs\<close>. For each argument with \<^verbatim>\<open>typeof arg === 'object'\<close> that is
  not \<^verbatim>\<open>null\<close>, a fresh plain object receives the enumerable keys other than \<^verbatim>\<open>org_id\<close> and
  \<^verbatim>\<open>orgId\<close>: the entries of a plain object, the indices of an array (so an array becomes
  an object keyed by its indices), nothing for an \<^verbatim>\<open>Error\<close>. The test
  \<^verbatim>\<open>arg.hasOwnProperty(key)\<close> calls whatever the argument holds under that name: an
  argument with an own \<^verbatim>\<open>hasOwnProperty\<close> entry (never a function in this model) makes the
  call throw a \<^verbatim>\<open>TypeError\<close>, here \<open>None\<close>. An own \<^verbatim>\<open>__proto__\<close> entry is not copied: the
  assignment \<^verbatim>\<open>filtered['__proto__'] = v\<close> sets the prototype and creates no entry.
\<close>

fun digit_char :: "nat \<Rightarrow> char" where
  "digit_char n = char_of (48 + n)"

fun decimal :: "nat \<Rightarrow> string" where
  "decimal n = (if n < 10 then [digit_char n] else decimal (n div 10) @ [digit_char (n mod 10)])"

declare decimal.simps [simp del]

definition is_org_key :: "string \<Rightarrow> bool" where
  "is_org_key k = (k = ''org_id'' \<or> k = ''orgId'')"

fun filter_arg :: "jsval \<Rightarrow> jsval option" where
  "filter_arg (JObj kvs) =
     (if ''hasOwnProperty'' \<in> set (map fst kvs) then None
      else Some (JObj (filter (\<lambda>(k, v). \<not> is_org_key k \<and> k \<noteq> ''__proto__'') kvs)))"
| "filter_arg (JArr xs) = Some (JObj (zip (map decimal [0..<length xs]) xs))"
| "filter_arg (JErr m) = Some (JObj [])"
| "filter_arg v = Some v"

fun filterSensitiveArgs :: "jsval list \<Rightarrow> jsval list option" where
  "filterSensitiveArgs [] = Some []"
| "filterSensitiveArgs (arg # args) =
     (case filter_arg arg of
        None \<Rightarrow> None
      | Some a \<Rightarrow> (case filterSensitiveArgs args of None \<Rightarrow> None | Some as \<Rightarrow> Some (a # as)))"

section \<open>TypeScript SDK: the session manager (session-manager.ts)\<close>

datatype log_entry = Debug string | Info string | Warning string | Error string

text \<open>
  The fields of \<^verbatim>\<open>SessionManager\<close> that change: the own entries of the object
  \<^verbatim>\<open>sessionIds\<close>, from session key to session id, the request context and the cached user
  (\<^verbatim>\<open>undefined\<close> when nothing is cached).
\<close>

record SessionManager =
  sessionIds :: "string \<rightharpoonup> string"
  requestContext :: jsval
  cachedUser :: jsval

record SessionData =
  session_id :: string
  client_config :: string
  connection_type :: string
  ip :: string
  user_data :: "jsval option"
  tools :: "jsval list option"

text \<open>
  \<^verbatim>\<open>identifyUser\<close> suspends at \<^verbatim>\<open>await this.identifyFn(...)\<close>. Up to the \<^verbatim>\<open>await\<close> it either
  answers at once (no identify function: \<^verbatim>\<open>null\<close>; a cached user: that user) or has called
  the identify function, whose outcome arrives when the call resumes.
\<close>

datatype identify_pending = Ready jsval | Called outcome

definition identifyUser_begin ::
  "(jsval \<Rightarrow> outcome) option \<Rightarrow> SessionManager \<Rightarrow> identify_pending" where
  "identifyUser_begin identifyFn sm =
     (case identifyFn of
        None \<Rightarrow> Ready JNull
      | Some f \<Rightarrow>
          if cachedUser sm \<noteq> JUndefined then Ready (cachedUser sm)
          else Called (f (requestContext sm)))"

text \<open>
  The rest of \<^verbatim>\<open>identifyUser\<close>, inside its \<^verbatim>\<open>try\<close>: a truthy result without a truthy
  \<^verbatim>\<open>userId\<close> is logged and replaced by \<^verbatim>\<open>null\<close>; any other result is cached and returned
  as it is; a throw or rejection is caught, logged and answered by \<^verbatim>\<open>null\<close>. The
  \<^verbatim>\<open>catch\<close> block builds its warning from the caught value first: when that conversion
  throws, the \<^verbatim>\<open>TypeError\<close> leaves \<^verbatim>\<open>identifyUser\<close> with nothing logged or cached.
\<close>

definition identifyUser_finish ::
  "js_env \<Rightarrow> identify_pending \<Rightarrow> SessionManager \<Rightarrow> SessionManager \<times> log_entry list \<times> outcome" where
  "identifyUser_finish env pending sm =
     (case pending of
        Ready v \<Rightarrow> (sm, [], Returned v)
      | Called (Returned result) \<Rightarrow>
          if truthy result \<and> \<not> truthy (js_get result ''userId'')
          then (sm\<lparr>cachedUser := JNull\<rparr>,
                [Warning ''User identity missing required userId field''], Returned JNull)
          else (sm\<lparr>cachedUser := result\<rparr>, [], Returned result)
      | Called (Threw e) \<Rightarrow>
          (case error_message env e of
             None \<Rightarrow> (sm, [], Threw type_error)
           | Some m \<Rightarrow>
               (sm\<lparr>cachedUser := JNull\<rparr>,
                [Warning (''User identification failed: '' @ m)], Returned JNull)))"

definition identifyUser ::
  "js_env \<Rightarrow> (jsval \<Rightarrow> outcome) option \<Rightarrow> SessionManager \<Rightarrow>
   SessionManager \<times> log_entry list \<times> outcome" where
  "identifyUser env identifyFn sm = identifyUser_finish env (identifyUser_begin identifyFn sm) sm"

text \<open>
  The pool of \<^verbatim>\<open>SessionData\<close> objects (object-pool.ts, at most 10 objects). Taking an
  object from the pool resets its four string fields only: \<^verbatim>\<open>user_data\<close> and \<^verbatim>\<open>tools\<close> keep
  what the previous use stored in them.
\<close>

definition fresh_SessionData :: SessionData where
  "fresh_SessionData =
     \<lparr>session_id = [], client_config = [], connection_type = [], ip = [],
      user_data = None, tools = None\<rparr>"

definition getSessionData :: "SessionData list \<Rightarrow> SessionData \<times> SessionData list" where
  "getSessionData pool =
     (case pool of
        [] \<Rightarrow> (fresh_SessionData, [])
      | obj # rest \<Rightarrow>
          (obj\<lparr>session_id := [], client_config := [], connection_type := [], ip := []\<rparr>, rest))"

definition returnSessionData :: "SessionData \<Rightarrow> SessionData list \<Rightarrow> SessionData list" where
  "returnSessionData obj pool = (if length pool < 10 then obj # pool else pool)"

text \<open>
  What \<^verbatim>\<open>extractClientName\<close> and the later \<^verbatim>\<open>String(clientName)\<close> come to for the server:
  a name; a name that \<^verbatim>\<open>String\<close> cannot convert; or an exception leaving
  \<^verbatim>\<open>extractClientName\<close> (its \<^verbatim>\<open>catch\<close> block converts the caught value for a debug line, and
  that conversion can throw).
\<close>

datatype client_info = ClientName string | ClientNameUnstringable | ExtractionThrows

text \<open>
  What is fixed for a session manager: the built-in conversions, the configured identify
  function (from the request context to what it returns or throws), the stream of
  identifiers \<^verbatim>\<open>uuidv4()\<close> produces, and the client name found on the server (taken to be
  the same for every call of a run).
\<close>

record ts_params =
  builtins :: js_env
  identifyFn :: "(jsval \<Rightarrow> outcome) option"
  uuidv4 :: "nat \<Rightarrow> string"
  clientName :: client_info

text \<open>
  What the environment supplies when a suspended call resumes: what \<^verbatim>\<open>extractTools\<close>
  answered, and the collector's answer to the POST. \<^verbatim>\<open>extractTools\<close> answers the truthy
  \<^verbatim>\<open>name\<close> values of the listed tools (the empty list whenever it catches an error), or
  throws (\<open>None\<close>) when its \<^verbatim>\<open>catch\<close> block cannot convert the caught value.
\<close>

record ts_input =
  tools_found :: "jsval list option"
  response :: http_outcome

text \<open>
  \<^verbatim>\<open>axios.post\<close> resolves for a status in 200..299 and rejects for any other status and
  for a transport error.
\<close>

fun post_ok :: "http_outcome \<Rightarrow> bool" where
  "post_ok TransportError = False"
| "post_ok (Status c) = (200 \<le> c \<and> c < 300)"

text \<open>
  A call of \<^verbatim>\<open>startSession\<close> is a coroutine: it runs until its next \<^verbatim>\<open>await\<close>, and other
  calls run while it is suspended. Its control points are: not yet called; suspended in
  \<^verbatim>\<open>identifyUser\<close>; suspended in \<^verbatim>\<open>extractTools\<close>; suspended in \<^verbatim>\<open>sendSession\<close> with the
  request posted; returned with a string; returned with the property that
  \<^verbatim>\<open>Object.prototype\<close> has under the session key. Each suspended point carries the session
  key and the dummy flag of the call and the identifier generated for it; the later ones
  carry the answer of \<^verbatim>\<open>identifyUser\<close> as well, and the last the session data object.
\<close>

datatype ts_pc =
    NotCalled
  | AwaitIdentify string bool string identify_pending
  | AwaitTools string string jsval
  | AwaitSend string bool string jsval SessionData
  | Finished string
  | FinishedInherited string

text \<open>
  \<^verbatim>\<open>sessionKey in this.sessionIds\<close> on a plain object: true for an own entry, and true as
  well for every property name of \<^verbatim>\<open>Object.prototype\<close>, for which
  \<^verbatim>\<open>this.sessionIds[sessionKey]\<close> is the inherited property.
\<close>

definition object_prototype_names :: "string list" where
  "object_prototype_names =
     [''constructor'', ''hasOwnProperty'', ''isPrototypeOf'', ''propertyIsEnumerable'',
      ''toLocaleString'', ''toString'', ''valueOf'', ''__proto__'', ''__defineGetter__'',
      ''__defineSetter__'', ''__lookupGetter__'', ''__lookupSetter__'']"

datatype cache_lookup = Absent | Cached string | Inherited

definition lookup_session :: "(string \<rightharpoonup> string) \<Rightarrow> string \<Rightarrow> cache_lookup" where
  "lookup_session ids key =
     (case ids key of
        Some sid \<Rightarrow> Cached sid
      | None \<Rightarrow> if key \<in> set object_prototype_names then Inherited else Absent)"

record ts_world =
  mgr :: SessionManager
  pool :: "SessionData list"
  calls :: "nat \<Rightarrow> ts_pc"
  posted :: "SessionData list"
  generated :: nat
  logged :: "log_entry list"

text \<open>
  \<^verbatim>\<open>sendSession\<close> serialises the session data for its debug log before it posts; only the
  user data can make that throw.
\<close>

definition serialisable :: "js_env \<Rightarrow> SessionData \<Rightarrow> bool" where
  "serialisable env obj =
     (case user_data obj of None \<Rightarrow> True | Some u \<Rightarrow> stringify env u \<noteq> None)"

text \<open>
  From \<^verbatim>\<open>getSessionData()\<close> to the \<^verbatim>\<open>await\<close> of \<^verbatim>\<open>sendSession\<close>, for \<^verbatim>\<open>startSession\<close>
  (\<open>d\<close> false) and for \<^verbatim>\<open>createDummySession\<close> (\<open>d\<close> true, which sets no tools and the
  client name \<^verbatim>\<open>unidentified_client\<close>). In \<^verbatim>\<open>startSession\<close> the object has been taken from
  the pool when \<^verbatim>\<open>String(clientName)\<close> is evaluated; when that throws, or when the session
  data cannot be serialised, the call is over and the object is not returned to the pool.
\<close>

definition fill_SessionData ::
  "string \<Rightarrow> bool \<Rightarrow> string \<Rightarrow> jsval \<Rightarrow> jsval list \<Rightarrow> SessionData \<Rightarrow> SessionData" where
  "fill_SessionData name d newId user found obj =
     (let o1 = obj\<lparr>session_id := newId,
                  client_config := (if d then ''unidentified_client'' else name),
                  connection_type := [], ip := []\<rparr>;
          o2 = (if truthy user then o1\<lparr>user_data := Some user\<rparr> else o1)
      in if \<not> d \<and> length found > 0 then o2\<lparr>tools := Some found\<rparr> else o2)"

definition failure_log :: "bool \<Rightarrow> log_entry" where
  "failure_log d =
     (if d then Error ''Failed to start dummy session'' else Warning ''Failed to start session'')"

definition client_config_text :: "ts_params \<Rightarrow> bool \<Rightarrow> string option" where
  "client_config_text P d =
     (if d then Some ''unidentified_client''
      else (case clientName P of ClientName name \<Rightarrow> Some name | other \<Rightarrow> None))"

definition post_session ::
  "ts_params \<Rightarrow> nat \<Rightarrow> string \<Rightarrow> bool \<Rightarrow> string \<Rightarrow> jsval \<Rightarrow> jsval list \<Rightarrow> ts_world \<Rightarrow>
   ts_world" where
  "post_session P c key d newId user found w =
     (case getSessionData (pool w) of
        (obj, rest) \<Rightarrow>
          (case client_config_text P d of
             None \<Rightarrow>
               w\<lparr>pool := rest, logged := logged w @ [failure_log d],
                 calls := (calls w)(c := Finished [])\<rparr>
           | Some name \<Rightarrow>
               (let body = fill_SessionData name d newId user found obj in
                if serialisable (builtins P) body
                then w\<lparr>pool := rest, posted := posted w @ [body],
                       calls := (calls w)(c := AwaitSend key d newId user body)\<rparr>
                else w\<lparr>pool := rest, logged := logged w @ [failure_log d],
                       calls := (calls w)(c := Finished [])\<rparr>)))"

text \<open>
  After a successful POST \<^verbatim>\<open>createDummySession\<close> logs a line that ends, for a truthy
  identity, in \<^verbatim>\<open>' with user: ' + userIdentity.userId\<close>. The concatenation throws for a
  \<^verbatim>\<open>userId\<close> that cannot be converted, still inside the \<^verbatim>\<open>try\<close>. \<^verbatim>\<open>startSession\<close> logs
  nothing there.
\<close>

definition info_line_throws :: "bool \<Rightarrow> jsval \<Rightarrow> bool" where
  "info_line_throws d user = (d \<and> truthy user \<and> unstringable (js_get user ''userId''))"

text \<open>
  One step of call \<open>c\<close> of \<^verbatim>\<open>startSession(server, key, dummy)\<close>: from where the call
  stands to its next \<^verbatim>\<open>await\<close> or to its return. The arguments \<open>key\<close> and \<open>dummy\<close> are
  read by the first step only. With \<open>dummy\<close> the call is \<^verbatim>\<open>createDummySession\<close>, which
  never reads or writes the cache and does not ask for the client name. Every exception
  inside the \<^verbatim>\<open>try\<close> (from \<^verbatim>\<open>extractClientName\<close>, \<^verbatim>\<open>identifyUser\<close>, \<^verbatim>\<open>extractTools\<close>,
  \<^verbatim>\<open>String(clientName)\<close>, the serialisation, the POST, or the line logged after it) is
  caught: it is logged and the call returns the empty string, with no cache entry written
  and the session data object not returned to the pool. The log keeps the entries of
  \<^verbatim>\<open>identifyUser\<close> and of the two \<^verbatim>\<open>catch\<close> blocks.
\<close>

definition startSession_step ::
  "ts_params \<Rightarrow> nat \<Rightarrow> string \<Rightarrow> bool \<Rightarrow> ts_input \<Rightarrow> ts_world \<Rightarrow> ts_world" where
  "startSession_step P c key dummy inp w =
     (case calls w c of
        NotCalled \<Rightarrow>
          (case (if dummy then Absent else lookup_session (sessionIds (mgr w)) key) of
             Cached sid \<Rightarrow> w\<lparr>calls := (calls w)(c := Finished sid)\<rparr>
           | Inherited \<Rightarrow> w\<lparr>calls := (calls w)(c := FinishedInherited key)\<rparr>
           | Absent \<Rightarrow>
               if \<not> dummy \<and> clientName P = ExtractionThrows
               then w\<lparr>generated := Suc (generated w),
                      logged := logged w @ [failure_log False],
                      calls := (calls w)(c := Finished [])\<rparr>
               else w\<lparr>generated := Suc (generated w),
                      calls := (calls w)(c := AwaitIdentify key dummy (uuidv4 P (generated w))
                                 (identifyUser_begin (identifyFn P) (mgr w)))\<rparr>)
      | AwaitIdentify k d newId pending \<Rightarrow>
          (case identifyUser_finish (builtins P) pending (mgr w) of
             (m', lg, Threw e) \<Rightarrow>
               w\<lparr>mgr := m', logged := logged w @ lg @ [failure_log d],
                 calls := (calls w)(c := Finished [])\<rparr>
           | (m', lg, Returned user) \<Rightarrow>
               if d then post_session P c k True newId user []
                           (w\<lparr>mgr := m', logged := logged w @ lg\<rparr>)
               else w\<lparr>mgr := m', logged := logged w @ lg,
                      calls := (calls w)(c := AwaitTools k newId user)\<rparr>)
      | AwaitTools k newId user \<Rightarrow>
          (case tools_found inp of
             None \<Rightarrow>
               w\<lparr>logged := logged w @ [failure_log False], calls := (calls w)(c := Finished [])\<rparr>
           | Some found \<Rightarrow> post_session P c k False newId user found w)
      | AwaitSend k d newId user body \<Rightarrow>
          if \<not> post_ok (response inp) \<or> info_line_throws d user
          then w\<lparr>logged := logged w @ [failure_log d], calls := (calls w)(c := Finished [])\<rparr>
          else w\<lparr>mgr := (if d then mgr w
                          else (mgr w)\<lparr>sessionIds := (sessionIds (mgr w))(k \<mapsto> newId)\<rparr>),
                 pool := returnSessionData body (pool w),
                 calls := (calls w)(c := Finished newId)\<rparr>
      | Finished r \<Rightarrow> w
      | FinishedInherited k \<Rightarrow> w)"


text \<open>
  A call that runs from its start to its return with no other call in between: at most
  four steps.
\<close>

definition startSession ::
  "ts_params \<Rightarrow> nat \<Rightarrow> string \<Rightarrow> bool \<Rightarrow> ts_input \<Rightarrow> ts_world \<Rightarrow> ts_world" where
  "startSession P c key dummy inp w =
     startSession_step P c key dummy inp
       (startSession_step P c key dummy inp
         (startSession_step P c key dummy inp
           (startSession_step P c key dummy inp w)))"


definition initial_world :: ts_world where
  "initial_world =
     \<lparr>mgr = \<lparr>sessionIds = Map.empty, requestContext = JUndefined, cachedUser = JUndefined\<rparr>,
      pool = [], calls = (\<lambda>c. NotCalled), posted = [], generated = 0, logged = []\<rparr>"

section \<open>Go SDK: the session manager (session.go)\<close>

text \<open>
  What can happen inside \<^verbatim>\<open>createSession\<close> after the identifier is generated: marshalling
  the session data fails, the request cannot be built, \<^verbatim>\<open>Do\<close> fails, the body cannot be
  read, or the collector answers with a status.
\<close>

datatype go_create = MarshalFails | NewRequestFails | DoFails | ReadFails | Responded int

datatype go_error =
    ErrMarshal | ErrNewRequest | ErrDo | ErrRead

datatype go_pc =
    GNotCalled
  | GCreating string
  | GStoring string string
  | GReturned string "go_error option"

text \<open>
  The state that \<^verbatim>\<open>GetOrCreateSession\<close> calls share. \<open>glogged\<close> lists the calls of the
  logger at warning and at error level.
\<close>

record go_world =
  sessions :: "string \<rightharpoonup> string"
  gcalls :: "nat \<Rightarrow> go_pc"
  gposted :: "string list"
  ggenerated :: nat
  glogged :: "log_entry list"

text \<open>
  \<^verbatim>\<open>createSession\<close>: the identifier is generated, then the request is built and sent.
  \<open>gposted\<close> lists the identifiers of the requests handed to \<^verbatim>\<open>httpClient.Do\<close>. A failure
  to marshal, to build the request, of \<^verbatim>\<open>Do\<close> or of reading the body is returned through
  \<^verbatim>\<open>Errorf\<close>, which logs the message as an error; a status other than 200 and 201 is logged
  as a warning and the identifier is returned all the same.
\<close>

definition Errorf :: "string \<Rightarrow> go_world \<Rightarrow> go_world" where
  "Errorf msg w = w\<lparr>glogged := glogged w @ [Error msg]\<rparr>"

definition createSession ::
  "(nat \<Rightarrow> string) \<Rightarrow> go_create \<Rightarrow> go_world \<Rightarrow> (string \<times> go_error option) \<times> go_world" where
  "createSession uuid what w =
     (let sessionID = uuid (ggenerated w); w1 = w\<lparr>ggenerated := Suc (ggenerated w)\<rparr> in
      case what of
        MarshalFails \<Rightarrow> (([], Some ErrMarshal), Errorf ''failed to marshal session data'' w1)
      | NewRequestFails \<Rightarrow>
          (([], Some ErrNewRequest), Errorf ''failed to create session request'' w1)
      | DoFails \<Rightarrow>
          (([], Some ErrDo),
           Errorf ''failed to create session'' (w1\<lparr>gposted := gposted w1 @ [sessionID]\<rparr>))
      | ReadFails \<Rightarrow>
          (([], Some ErrRead),
           Errorf ''failed to read session response'' (w1\<lparr>gposted := gposted w1 @ [sessionID]\<rparr>))
      | Responded code \<Rightarrow>
          if code \<noteq> 200 \<and> code \<noteq> 201
          then ((sessionID, None),
                w1\<lparr>gposted := gposted w1 @ [sessionID],
                   glogged := glogged w1 @ [Warning ''Session creation failed with status'']\<rparr>)
          else ((sessionID, None), w1\<lparr>gposted := gposted w1 @ [sessionID]\<rparr>))"

text \<open>
  One step of call \<open>c\<close> of \<^verbatim>\<open>GetOrCreateSession\<close>: the lookup under the read lock;
  \<^verbatim>\<open>createSession\<close>, under no lock; the store under the write lock. A \<^verbatim>\<open>nil\<close> session
  info stands for the key \<^verbatim>\<open>default\<close>.
\<close>

definition GetOrCreateSession_step ::
  "(nat \<Rightarrow> string) \<Rightarrow> nat \<Rightarrow> string option \<Rightarrow> go_create \<Rightarrow> go_world \<Rightarrow> go_world" where
  "GetOrCreateSession_step uuid c sessionInfo what w =
     (case gcalls w c of
        GNotCalled \<Rightarrow>
          (let key = (case sessionInfo of None \<Rightarrow> ''default'' | Some k \<Rightarrow> k) in
           case sessions w key of
             Some sessionID \<Rightarrow> w\<lparr>gcalls := (gcalls w)(c := GReturned sessionID None)\<rparr>
           | None \<Rightarrow> w\<lparr>gcalls := (gcalls w)(c := GCreating key)\<rparr>)
      | GCreating key \<Rightarrow>
          (case createSession uuid what w of
             ((sessionID, Some err), w1) \<Rightarrow>
               w1\<lparr>gcalls := (gcalls w1)(c := GReturned [] (Some err))\<rparr>
           | ((sessionID, None), w1) \<Rightarrow>
               w1\<lparr>gcalls := (gcalls w1)(c := GStoring key sessionID)\<rparr>)
      | GStoring key sessionID \<Rightarrow>
          w\<lparr>sessions := (sessions w)(key \<mapsto> sessionID),
            gcalls := (gcalls w)(c := GReturned sessionID None)\<rparr>
      | GReturned sessionID err \<Rightarrow> w)"

fun go_run_schedule ::
  "(nat \<Rightarrow> string) \<Rightarrow> string \<Rightarrow> (nat \<times> go_create) list \<Rightarrow> go_world \<Rightarrow> go_world" where
  "go_run_schedule uuid key [] w = w"
| "go_run_schedule uuid key ((c, what) # rest) w =
     go_run_schedule uuid key rest (GetOrCreateSession_step uuid c (Some key) what w)"

definition GetOrCreateSession ::
  "(nat \<Rightarrow> string) \<Rightarrow> nat \<Rightarrow> string option \<Rightarrow> go_create \<Rightarrow> go_world \<Rightarrow> go_world" where
  "GetOrCreateSession uuid c sessionInfo what w =
     GetOrCreateSession_step uuid c sessionInfo what
       (GetOrCreateSession_step uuid c sessionInfo what
         (GetOrCreateSession_step uuid c sessionInfo what w))"

definition go_initial_world :: go_world where
  "go_initial_world =
     \<lparr>sessions = Map.empty, gcalls = (\<lambda>c. GNotCalled), gposted = [], ggenerated = 0,
      glogged = []\<rparr>"


section \<open>TypeScript SDK: everything that touches the session manager\<close>

text \<open>
  Besides the steps of \<^verbatim>\<open>startSession\<close> calls (with any key and dummy flag), two things
  write to the session manager: the installed tool-call handler, which (when an identify
  function is configured) stores the request as request context and forgets the cached
  user; and \<^verbatim>\<open>cleanup\<close>, which calls \<^verbatim>\<open>SessionManager.clear()\<close> and empties the object pools.
\<close>

datatype ts_event =
    Resume nat string bool ts_input
  | NewRequestContext jsval
  | Cleanup

definition apply_event :: "ts_params \<Rightarrow> ts_event \<Rightarrow> ts_world \<Rightarrow> ts_world" where
  "apply_event P ev w =
     (case ev of
        Resume c key dummy inp \<Rightarrow> startSession_step P c key dummy inp w
      | NewRequestContext request \<Rightarrow>
          (if identifyFn P \<noteq> None
           then w\<lparr>mgr := (mgr w)\<lparr>requestContext := request, cachedUser := JUndefined\<rparr>\<rparr>
           else w)
      | Cleanup \<Rightarrow>
          w\<lparr>mgr := (mgr w)\<lparr>sessionIds := Map.empty, cachedUser := JUndefined\<rparr>, pool := []\<rparr>)"

fun run_events :: "ts_params \<Rightarrow> ts_event list \<Rightarrow> ts_world \<Rightarrow> ts_world" where
  "run_events P [] w = w"
| "run_events P (ev # evs) w = run_events P evs (apply_event P ev w)"

text \<open>
  What it means for a user identity to be acceptable: it is falsy (anonymous, nothing is
  attached), or it has a truthy \<^verbatim>\<open>userId\<close> (for a string: a non-empty one). A session record
  is acceptable when the identity attached to it, if any, is truthy with a truthy
  \<^verbatim>\<open>userId\<close>. A world is acceptable when this holds of the cached user, of every pooled and
  every posted record, and of what every suspended call carries.
\<close>

definition user_ok :: "jsval \<Rightarrow> bool" where
  "user_ok v = (if truthy v then truthy (js_get v ''userId'') else True)"




section \<open>TypeScript SDK: recording an event (event-recorder.ts)\<close>

text \<open>
  The fields of \<^verbatim>\<open>AgnostConfig\<close> read when an event is recorded; \<^verbatim>\<open>enableRequestQueuing\<close>
  is optional. The payload's \<^verbatim>\<open>args\<close> and \<^verbatim>\<open>result\<close> hold what \<^verbatim>\<open>JSON.stringify\<close> answered, a
  string or \<^verbatim>\<open>undefined\<close>.
\<close>

record ts_config =
  endpoint :: string
  disableInput :: bool
  disableOutput :: bool
  enableRequestQueuing :: "bool option"

record EventData =
  org_id :: string
  event_session_id :: string
  primitive_type :: string
  primitive_name :: string
  latency :: int
  success :: bool
  args :: jsval
  result :: jsval

text \<open>
  What became of the event: nothing was built, or the payload was put on the request
  queue, or it was handed to \<^verbatim>\<open>httpClient.sendEvent\<close> at once.
\<close>

datatype delivery = NotRecorded | Enqueued EventData | SentNow EventData

fun delivered_payload :: "delivery \<Rightarrow> EventData option" where
  "delivered_payload NotRecorded = None"
| "delivered_payload (Enqueued e) = Some e"
| "delivered_payload (SentNow e) = Some e"

text \<open>
  The serialisation of the result: the empty string for \<^verbatim>\<open>null\<close> and \<^verbatim>\<open>undefined\<close>, a
  string as it is, otherwise \<^verbatim>\<open>JSON.stringify\<close> with \<^verbatim>\<open>String\<close> as the fallback when it
  throws (\<^verbatim>\<open>String\<close> is taken to produce a text for a value that \<^verbatim>\<open>JSON.stringify\<close> rejects).
\<close>

definition serializeResult :: "js_env \<Rightarrow> jsval \<Rightarrow> jsval" where
  "serializeResult env sendResult =
     (if nullish sendResult then JStr []
      else (case sendResult of
              JStr s \<Rightarrow> JStr s
            | other \<Rightarrow>
                (case stringify env sendResult of
                   Some j \<Rightarrow> j
                 | None \<Rightarrow> JStr (toStr env sendResult))))"

text \<open>
  \<^verbatim>\<open>EventRecorder.recordEvent\<close>. \<open>sessionId\<close> is what \<^verbatim>\<open>getOrCreateSessionId\<close> answered
  (empty when no session could be made) and \<open>send_ok\<close> whether the direct POST succeeds.
  An exception of \<^verbatim>\<open>JSON.stringify(sendArgs)\<close> or of the direct POST is caught by the outer
  \<^verbatim>\<open>catch\<close>: the answer is \<^verbatim>\<open>false\<close>.
\<close>

definition recordEvent ::
  "js_env \<Rightarrow> ts_config \<Rightarrow> string \<Rightarrow> string \<Rightarrow> bool \<Rightarrow>
   string \<Rightarrow> string \<Rightarrow> jsval \<Rightarrow> int \<Rightarrow> bool \<Rightarrow> jsval \<Rightarrow> bool \<times> delivery" where
  "recordEvent env config orgId sessionId send_ok primitiveType primitiveName
       args0 latency0 success0 result0 =
     (if sessionId = [] then (False, NotRecorded)
      else
        (let sendArgs = (if disableInput config then JNull else args0);
             sendResult = (if disableOutput config then JNull else result0);
             serializedResult = serializeResult env sendResult
         in case (if sendArgs \<noteq> JNull then stringify env sendArgs else Some (JStr [])) of
              None \<Rightarrow> (False, NotRecorded)
            | Some a \<Rightarrow>
                (let eventData =
                       \<lparr>org_id = orgId, event_session_id = sessionId,
                        primitive_type = primitiveType, primitive_name = primitiveName,
                        latency = latency0, success = success0, args = a,
                        result = serializedResult\<rparr>
                 in if enableRequestQueuing config \<noteq> Some False then (True, Enqueued eventData)
                    else (send_ok, SentNow eventData))))"

section \<open>Go SDK: recording an event (analytics.go)\<close>

datatype go_record_error = NotInitialized | SessionError go_error | SendError send_error

datatype go_delivery = GoNotRecorded | GoQueued GoEventData | GoSentNow GoEventData

fun go_delivered_payload :: "go_delivery \<Rightarrow> GoEventData option" where
  "go_delivered_payload GoNotRecorded = None"
| "go_delivered_payload (GoQueued e) = Some e"
| "go_delivered_payload (GoSentNow e) = Some e"

text \<open>
  \<^verbatim>\<open>RecordEvent\<close>. Arguments and result are Go \<^verbatim>\<open>any\<close> values: \<^verbatim>\<open>nil\<close> (\<open>None\<close>) or a
  value, which \<^verbatim>\<open>json.Marshal\<close> (the parameter \<open>marshal\<close>) turns into a string or rejects.
  \<open>session\<close> is what \<^verbatim>\<open>GetOrCreateSession\<close> returned and \<open>send_err\<close> what a synchronous
  \<^verbatim>\<open>sendEvent\<close> returns.
\<close>

definition marshal_unless ::
  "bool \<Rightarrow> ('v \<Rightarrow> string option) \<Rightarrow> 'v option \<Rightarrow> string" where
  "marshal_unless disabled marshal v =
     (if disabled then []
      else (case v of
              None \<Rightarrow> []
            | Some x \<Rightarrow> (case marshal x of Some s \<Rightarrow> s | None \<Rightarrow> [])))"

definition RecordEvent ::
  "GoConfig \<Rightarrow> ('v \<Rightarrow> string option) \<Rightarrow> bool \<Rightarrow> string \<times> go_error option \<Rightarrow>
   send_error option \<Rightarrow> string \<Rightarrow> string \<Rightarrow> 'v option \<Rightarrow> int \<Rightarrow> bool \<Rightarrow> 'v option \<Rightarrow>
   go_record_error option \<times> go_delivery" where
  "RecordEvent config marshal initialized session send_err primitiveType primitiveName
       args0 latency0 success0 result0 =
     (if \<not> initialized then (Some NotInitialized, GoNotRecorded)
      else
        (case session of
           (sessionID, Some err) \<Rightarrow> (Some (SessionError err), GoNotRecorded)
         | (sessionID, None) \<Rightarrow>
             (let argsJSON = marshal_unless (DisableInput config) marshal args0;
                  resultJSON = marshal_unless (DisableOutput config) marshal result0;
                  event = \<lparr>SessionID = sessionID, PrimitiveType = primitiveType,
                           PrimitiveName = primitiveName, Latency = latency0,
                           Success = success0, Input = argsJSON, Output = resultJSON\<rparr>
              in if EnableRequestQueuing config then (None, GoQueued event)
                 else (case send_err of
                         Some e \<Rightarrow> (Some (SendError e), GoSentNow event)
                       | None \<Rightarrow> (None, GoSentNow event)))))"

section \<open>TypeScript SDK: the instrumentation wrappers\<close>

text \<open>
  The arguments of one call of \<^verbatim>\<open>recordEvent\<close>, and what a wrapper does, in order: it
  calls the original handler, logs, and calls \<^verbatim>\<open>recordEvent\<close>. Everything in the list has
  happened when the wrapper's own outcome reaches its caller.
\<close>

record record_call =
  call_type :: string
  call_name :: string
  call_args :: jsval
  call_latency :: int
  call_success :: bool
  call_result :: jsval

datatype wrap_action = HandlerCalled jsval | Logged log_entry | RecordEventCalled record_call

text \<open>
  The \<^verbatim>\<open>finally\<close> block of \<^verbatim>\<open>wrappedHandler\<close> once \<^verbatim>\<open>String(toolName)\<close> has been evaluated:
  \<^verbatim>\<open>recordEvent\<close> is awaited inside its own \<^verbatim>\<open>try\<close>, so a rejection with an \<^verbatim>\<open>Error\<close>
  (\<open>record_rejects\<close>) is only logged.
\<close>

definition record_finally :: "bool \<Rightarrow> record_call \<Rightarrow> wrap_action list" where
  "record_finally record_rejects call =
     RecordEventCalled call #
     (if record_rejects then [Logged (Warning ''Failed to record analytics'')] else [])"

text \<open>
  The tool name is \<^verbatim>\<open>request.params?.name || 'unknown_tool'\<close> and the arguments are
  \<^verbatim>\<open>request.params?.arguments || {}\<close>.
\<close>

definition request_toolName :: "jsval \<Rightarrow> jsval" where
  "request_toolName request =
     (if truthy (js_get_opt (js_get request ''params'') ''name'')
      then js_get_opt (js_get request ''params'') ''name''
      else JStr ''unknown_tool'')"

definition request_arguments :: "jsval \<Rightarrow> jsval" where
  "request_arguments request =
     (if truthy (js_get_opt (js_get request ''params'') ''arguments'')
      then js_get_opt (js_get request ''params'') ''arguments''
      else JObj [])"

text \<open>The call of \<^verbatim>\<open>recordEvent\<close> that the installed handler makes.\<close>

definition recorded_call :: "js_env \<Rightarrow> jsval \<Rightarrow> int \<Rightarrow> bool \<Rightarrow> jsval \<Rightarrow> record_call" where
  "recorded_call env request elapsed ok res =
     \<lparr>call_type = ''tool'', call_name = toStr env (request_toolName request),
      call_args = request_arguments request, call_latency = elapsed, call_success = ok,
      call_result = res\<rparr>"

text \<open>
  The handler that \<^verbatim>\<open>wrapToolCallHandler\<close> installs. \<open>identify_set\<close> says that a session
  manager exists and \<^verbatim>\<open>config.identify\<close> is set; then the request becomes the session
  manager's request context and its cached user is forgotten. \<open>elapsed\<close> is the measured
  latency. The arguments go to \<^verbatim>\<open>recordEvent\<close> as they are. Where it throws on its own:

    \<^item> reading \<^verbatim>\<open>request.params\<close> of a \<^verbatim>\<open>null\<close> or \<^verbatim>\<open>undefined\<close> request throws before anything
      else is done;

    \<^item> a tool name that cannot be converted to a string: whatever the original handler
      does, the \<^verbatim>\<open>finally\<close> block is reached (a warning whose text mentions the tool name
      throws before it is logged), \<^verbatim>\<open>String(toolName)\<close> throws there, the inner \<^verbatim>\<open>catch\<close>
      builds its warning from the tool name and throws again, and that \<^verbatim>\<open>TypeError\<close> is
      what the caller gets, with nothing logged or recorded;

    \<^item> a result classified as an error whose message cannot be converted: the warning
      about it throws inside the \<^verbatim>\<open>try\<close>, so the \<^verbatim>\<open>catch\<close> block logs that \<^verbatim>\<open>TypeError\<close>,
      records its message and throws it;

    \<^item> a handler that throws a value which is no \<^verbatim>\<open>Error\<close> and cannot be converted:
      \<^verbatim>\<open>String(error)\<close> throws in the \<^verbatim>\<open>catch\<close> block before anything is logged, the
      \<^verbatim>\<open>finally\<close> block records the result \<^verbatim>\<open>null\<close>, and the \<^verbatim>\<open>TypeError\<close> is what the caller
      gets.
\<close>

definition wrappedHandler ::
  "js_env \<Rightarrow> bool \<Rightarrow> (jsval \<Rightarrow> outcome) \<Rightarrow> int \<Rightarrow> bool \<Rightarrow> SessionManager \<Rightarrow> jsval \<Rightarrow>
   SessionManager \<times> wrap_action list \<times> outcome" where
  "wrappedHandler env identify_set originalHandler elapsed record_rejects sm request =
     (if nullish request then (sm, [], Threw type_error)
      else
        (let toolName = request_toolName request;
             sm1 = (if identify_set then sm\<lparr>requestContext := request, cachedUser := JUndefined\<rparr>
                    else sm)
         in if unstringable toolName then (sm1, [HandlerCalled request], Threw type_error)
            else
              (case originalHandler request of
                 Returned result0 \<Rightarrow>
                   (case isMcpErrorResponse env result0 of
                      (isError, errorMessage) \<Rightarrow>
                        if isError \<and> unstringable errorMessage
                        then (sm1,
                              HandlerCalled request # Logged (Warning ''Error calling tool'') #
                              record_finally record_rejects
                                (recorded_call env request elapsed False (JStr ''TypeError'')),
                              Threw type_error)
                        else (sm1,
                              HandlerCalled request #
                              (if isError then [Logged (Warning ''Tool returned error'')] else []) @
                              record_finally record_rejects
                                (recorded_call env request elapsed (\<not> isError)
                                   (if isError then errorMessage else result0)),
                              Returned result0))
               | Threw error \<Rightarrow>
                   (case error_message env error of
                      None \<Rightarrow>
                        (sm1,
                         HandlerCalled request #
                         record_finally record_rejects
                           (recorded_call env request elapsed False JNull),
                         Threw type_error)
                    | Some m \<Rightarrow>
                        (sm1,
                         HandlerCalled request # Logged (Warning ''Error calling tool'') #
                         record_finally record_rejects
                           (recorded_call env request elapsed False (JStr m)),
                         Threw error)))))"

text \<open>
  The wrapper that \<^verbatim>\<open>EventRecorder.createWrapper\<close> builds around any function. Its
  \<^verbatim>\<open>finally\<close> block filters the arguments with \<^verbatim>\<open>filterSensitiveArgs\<close> outside any \<^verbatim>\<open>try\<close>:
  when the filter throws, that exception replaces the function's own outcome and nothing
  is recorded. On a throw of the function the recorded result is \<^verbatim>\<open>null\<close>.
\<close>

definition createWrapper ::
  "string \<Rightarrow> string \<Rightarrow> (jsval list \<Rightarrow> outcome) \<Rightarrow> int \<Rightarrow> bool \<Rightarrow> jsval list \<Rightarrow>
   wrap_action list \<times> outcome" where
  "createWrapper primitiveType primitiveName func elapsed record_rejects args0 =
     (let oc = func args0;
          ok = (case oc of Returned r \<Rightarrow> True | Threw e \<Rightarrow> False);
          res = (case oc of Returned r \<Rightarrow> r | Threw e \<Rightarrow> JNull)
      in case filterSensitiveArgs args0 of
           None \<Rightarrow> ([], Threw type_error)
         | Some filteredArgs \<Rightarrow>
             (record_finally record_rejects
                \<lparr>call_type = primitiveType, call_name = primitiveName,
                 call_args = JArr filteredArgs, call_latency = elapsed, call_success = ok,
                 call_result = res\<rparr>,
              oc))"

text \<open>
  \<^verbatim>\<open>AgnostAnalytics.recordEvent\<close>, which the installed handler calls: for an initialised
  client with an event recorder it passes its arguments on to the event recorder.
\<close>

definition analytics_recordEvent ::
  "bool \<Rightarrow> js_env \<Rightarrow> ts_config \<Rightarrow> string \<Rightarrow> string \<Rightarrow> bool \<Rightarrow> record_call \<Rightarrow> bool \<times> delivery" where
  "analytics_recordEvent is_initialized env config orgId sessionId send_ok call =
     (if \<not> is_initialized then (False, NotRecorded)
      else recordEvent env config orgId sessionId send_ok (call_type call) (call_name call)
             (call_args call) (call_latency call) (call_success call) (call_result call))"

text \<open>
  Where a value carries the protocol's error flag: as a truthy \<^verbatim>\<open>isError\<close> property of the
  value itself, or of the object under its \<^verbatim>\<open>root\<close> property.
\<close>

definition flagged_directly :: "jsval \<Rightarrow> bool" where
  "flagged_directly v = (hasattr v ''isError'' \<and> truthy (js_get v ''isError''))"

definition flagged_on_root :: "jsval \<Rightarrow> bool" where
  "flagged_on_root v = (hasattr v ''root'' \<and> flagged_directly (js_get v ''root''))"

section \<open>Go SDK: the tool handler wrapper (adapter.go)\<close>

text \<open>
  A Go tool handler returns a result pointer (possibly \<^verbatim>\<open>nil\<close>) and an error (possibly
  \<^verbatim>\<open>nil\<close>), or panics. \<^verbatim>\<open>WrapToolHandler\<close> has no \<^verbatim>\<open>recover\<close>: a panic passes through it
  before the callback is reached.
\<close>

record CallToolResult =
  IsError :: bool
  Content :: "string list"

datatype go_outcome = GoReturns "CallToolResult option" "string option" | GoPanics string

record 'a callback_call =
  cb_toolName :: string
  cb_arguments :: 'a
  cb_execTime :: int
  cb_success :: bool
  cb_result :: "CallToolResult option"

definition WrapToolHandler ::
  "string \<Rightarrow> ('a \<Rightarrow> go_outcome) \<Rightarrow> int \<Rightarrow> 'a \<Rightarrow> 'a callback_call list \<times> go_outcome" where
  "WrapToolHandler toolName handler execTime arguments =
     (case handler arguments of
        GoPanics p \<Rightarrow> ([], GoPanics p)
      | GoReturns result0 err \<Rightarrow>
          (let ok = (if err \<noteq> None then False
                     else (case result0 of
                             Some r \<Rightarrow> \<not> IsError r
                           | None \<Rightarrow> True))
           in ([\<lparr>cb_toolName = toolName, cb_arguments = arguments, cb_execTime = execTime,
                 cb_success = ok, cb_result = result0\<rparr>],
               GoReturns result0 err)))"

section \<open>TypeScript SDK: the request queue (request-queue.ts)\<close>

text \<open>
  Queued requests are closures; here each is known by a number. The fields of the class
  are \<^verbatim>\<open>queue\<close> (here \<open>waiting\<close>) and \<^verbatim>\<open>isProcessing\<close>. \<^verbatim>\<open>processQueue\<close> is a coroutine: it is
  not running, or suspended at \<^verbatim>\<open>await request()\<close> with a request in flight, or suspended
  at the delay between two requests. \<open>settled\<close> lists the requests whose promise has
  settled, that is, whose delivery attempt is complete.
\<close>

datatype worker_pc = NotRunning | AwaitRequest nat | AwaitDelay

record RequestQueue =
  waiting :: "nat list"
  isProcessing :: bool
  worker :: worker_pc
  settled :: "nat list"

definition new_RequestQueue :: RequestQueue where
  "new_RequestQueue = \<lparr>waiting = [], isProcessing = False, worker = NotRunning, settled = []\<rparr>"

text \<open>
  The head of the \<^verbatim>\<open>while (this.queue.length > 0)\<close> loop: shift the next request and call
  it, or leave the loop and reset \<^verbatim>\<open>isProcessing\<close> in the \<^verbatim>\<open>finally\<close> block.
\<close>

definition processQueue_loop :: "RequestQueue \<Rightarrow> RequestQueue" where
  "processQueue_loop q =
     (case waiting q of
        [] \<Rightarrow> q\<lparr>isProcessing := False, worker := NotRunning\<rparr>
      | request # rest \<Rightarrow> q\<lparr>waiting := rest, worker := AwaitRequest request\<rparr>)"

definition processQueue :: "RequestQueue \<Rightarrow> RequestQueue" where
  "processQueue q =
     (if isProcessing q \<or> length (waiting q) = 0 then q
      else processQueue_loop (q\<lparr>isProcessing := True\<rparr>))"

definition enqueue :: "nat \<Rightarrow> RequestQueue \<Rightarrow> RequestQueue" where
  "enqueue requestFn q =
     (let q1 = q\<lparr>waiting := waiting q @ [requestFn]\<rparr>
      in if \<not> isProcessing q1 then processQueue q1 else q1)"

text \<open>
  The request in flight settles (a rejection is only logged): the loop goes on, through
  the delay when more requests are waiting. Then the delay elapses.
\<close>

definition request_settles :: "RequestQueue \<Rightarrow> RequestQueue" where
  "request_settles q =
     (case worker q of
        AwaitRequest request \<Rightarrow>
          (let q1 = q\<lparr>settled := settled q @ [request]\<rparr>
           in if length (waiting q1) > 0 then q1\<lparr>worker := AwaitDelay\<rparr>
              else processQueue_loop q1)
      | other \<Rightarrow> q)"

definition delay_elapses :: "RequestQueue \<Rightarrow> RequestQueue" where
  "delay_elapses q = (case worker q of AwaitDelay \<Rightarrow> processQueue_loop q | other \<Rightarrow> q)"

definition clear :: "RequestQueue \<Rightarrow> RequestQueue" where
  "clear q = q\<lparr>waiting := []\<rparr>"

text \<open>
  \<^verbatim>\<open>flush\<close> polls: \<^verbatim>\<open>while (this.isProcessing && this.queue.length > 0)\<close> it sleeps 100 ms.
  What happens to the queue during each sleep is given as a list of events per sleep;
  \<open>None\<close> means that \<^verbatim>\<open>flush\<close> is still waiting when the given future ends.
\<close>

datatype queue_event = Settles | DelayElapses | Enqueues nat | Clears

fun happens :: "queue_event \<Rightarrow> RequestQueue \<Rightarrow> RequestQueue" where
  "happens Settles q = request_settles q"
| "happens DelayElapses q = delay_elapses q"
| "happens (Enqueues r) q = enqueue r q"
| "happens Clears q = clear q"

definition flush_waits :: "RequestQueue \<Rightarrow> bool" where
  "flush_waits q = (isProcessing q \<and> length (waiting q) > 0)"

fun flush :: "queue_event list list \<Rightarrow> RequestQueue \<Rightarrow> RequestQueue option" where
  "flush [] q = (if flush_waits q then None else Some q)"
| "flush (during_sleep # later) q =
     (if flush_waits q then flush later (fold happens during_sleep q) else Some q)"

text \<open>The requests given to the queue that have not settled: waiting or in flight.\<close>

definition unsettled :: "RequestQueue \<Rightarrow> nat list" where
  "unsettled q =
     (case worker q of AwaitRequest request \<Rightarrow> [request] | other \<Rightarrow> []) @ waiting q"

section \<open>TypeScript SDK: the analytics client (analytics-client.ts)\<close>

text \<open>
  Servers are objects that the client changes in place, and two handles may name the same
  or different objects, so the servers live in a store from handles to objects. A server
  object has: the low-level server it wraps (\<^verbatim>\<open>server.server\<close>, when that is an object), its
  \<^verbatim>\<open>_requestHandlers\<close> map when it has one (an association list in insertion order),
  whether it has a \<^verbatim>\<open>connect\<close> and a \<^verbatim>\<open>registerTool\<close> method, and how many times \<^verbatim>\<open>connect\<close>
  and \<^verbatim>\<open>registerTool\<close> have been replaced by a wrapper. A handler is an original function of
  the host, or the analytics wrapper around a handler (marked \<^verbatim>\<open>_agnostWrapped\<close>).
\<close>

datatype handler = Original nat | AgnostWrapped handler

fun agnostWrapped :: "handler \<Rightarrow> bool" where
  "agnostWrapped (AgnostWrapped h) = True"
| "agnostWrapped (Original n) = False"

record server_obj =
  inner_server :: "nat option"
  requestHandlers :: "(string \<times> handler) list option"
  hasConnect :: bool
  hasRegisterTool :: bool
  connectWrappers :: nat
  registerToolWrappers :: nat

type_synonym store = "nat \<Rightarrow> server_obj"

text \<open>
  The client's fields. \<open>stored_server\<close>, \<open>stored_config\<close> and \<open>stored_orgId\<close> are the
  fields \<^verbatim>\<open>server\<close>, \<^verbatim>\<open>config\<close> and the organisation id held by the HTTP client (\<^verbatim>\<open>null\<close>
  before initialisation). \<open>initialSessions\<close> lists the servers for which
  \<^verbatim>\<open>createInitialSession\<close> has been started.
\<close>

record AgnostAnalytics =
  initialized :: bool
  overrideApplied :: bool
  stored_server :: "nat option"
  stored_config :: "ts_config option"
  stored_orgId :: "string option"
  initialSessions :: "nat option list"

definition new_AgnostAnalytics :: AgnostAnalytics where
  "new_AgnostAnalytics =
     \<lparr>initialized = False, overrideApplied = False, stored_server = None,
      stored_config = None, stored_orgId = None, initialSessions = []\<rparr>"

text \<open>
  \<^verbatim>\<open>validateInitializationInputs\<close>: a server, an organisation id that is not blank after
  \<^verbatim>\<open>trim()\<close>, a configuration object, a non-empty endpoint. Strings are taken as sequences
  of code units below 256, among which \<^verbatim>\<open>trim\<close> removes tab, line feed, vertical tab, form
  feed, carriage return, space and no-break space.
\<close>

definition is_space :: "char \<Rightarrow> bool" where
  "is_space c = (of_char c \<in> {9, 10, 11, 12, 13, 32, 160 :: nat})"

definition inputs_valid :: "nat option \<Rightarrow> string \<Rightarrow> ts_config option \<Rightarrow> bool" where
  "inputs_valid server orgId config =
     (server \<noteq> None \<and> dropWhile is_space orgId \<noteq> []
      \<and> (case config of None \<Rightarrow> False | Some cfg \<Rightarrow> endpoint cfg \<noteq> []))"

text \<open>
  \<^verbatim>\<open>initialize\<close>: an initialised client answers \<^verbatim>\<open>true\<close> at once; otherwise the inputs are
  validated and, when valid, stored.
\<close>

definition initialize ::
  "AgnostAnalytics \<Rightarrow> nat option \<Rightarrow> string \<Rightarrow> ts_config option \<Rightarrow> bool \<times> AgnostAnalytics" where
  "initialize a server orgId config =
     (if initialized a then (True, a)
      else if inputs_valid server orgId config
      then (True, a\<lparr>stored_server := server, stored_config := config,
                     stored_orgId := Some orgId, initialized := True\<rparr>)
      else (False, a))"

text \<open>\<^verbatim>\<open>Map.set\<close>: replace the value of a present key in place, append an absent key.\<close>

fun map_set :: "string \<Rightarrow> handler \<Rightarrow> (string \<times> handler) list \<Rightarrow> (string \<times> handler) list" where
  "map_set k v [] = [(k, v)]"
| "map_set k v ((k', v') # rest) =
     (if k = k' then (k, v) # rest else (k', v') # map_set k v rest)"

text \<open>
  \<^verbatim>\<open>wrapToolCallHandler\<close>: a handler already marked is left alone; otherwise the wrapper
  around it replaces it in the server's handler map.
\<close>

definition wrapToolCallHandler :: "store \<Rightarrow> nat \<Rightarrow> string \<Rightarrow> handler \<Rightarrow> store" where
  "wrapToolCallHandler S server requestType originalHandler =
     (if agnostWrapped originalHandler then S
      else (case requestHandlers (S server) of
              None \<Rightarrow> S
            | Some hs \<Rightarrow>
                S(server := (S server)\<lparr>requestHandlers :=
                     Some (map_set requestType (AgnostWrapped originalHandler) hs)\<rparr>)))"

text \<open>\<^verbatim>\<open>String.prototype.includes\<close>.\<close>

fun str_includes :: "string \<Rightarrow> string \<Rightarrow> bool" where
  "str_includes [] p = (p = [])"
| "str_includes (c # cs) p = (take (length p) (c # cs) = p \<or> str_includes cs p)"

definition is_call_tool_key :: "string \<times> handler \<Rightarrow> bool" where
  "is_call_tool_key entry =
     (str_includes (fst entry) ''CallTool'' \<or> str_includes (fst entry) ''tools/call'')"

fun wrap_entries :: "store \<Rightarrow> nat \<Rightarrow> (string \<times> handler) list \<Rightarrow> store" where
  "wrap_entries S server [] = S"
| "wrap_entries S server ((key, h) # rest) =
     wrap_entries (wrapToolCallHandler S server key h) server rest"

text \<open>
  \<^verbatim>\<open>overrideMcpServer\<close>: nothing is done once \<^verbatim>\<open>overrideApplied\<close> is set. Otherwise the
  handler under \<^verbatim>\<open>tools/call\<close> of the low-level server is wrapped, or else every handler
  whose key contains \<^verbatim>\<open>CallTool\<close> or \<^verbatim>\<open>tools/call\<close>; without handlers, and for a \<^verbatim>\<open>null\<close>
  server (whose property access throws into the \<^verbatim>\<open>catch\<close>), the answer is \<^verbatim>\<open>false\<close>.
\<close>

definition overrideMcpServer ::
  "AgnostAnalytics \<Rightarrow> store \<Rightarrow> nat option \<Rightarrow> bool \<times> AgnostAnalytics \<times> store" where
  "overrideMcpServer a S server =
     (if overrideApplied a then (True, a, S)
      else (case server of
              None \<Rightarrow> (False, a, S)
            | Some s \<Rightarrow>
                (let lowLevelServer = (case inner_server (S s) of Some i \<Rightarrow> i | None \<Rightarrow> s) in
                 case requestHandlers (S lowLevelServer) of
                   None \<Rightarrow> (False, a, S)
                 | Some hs \<Rightarrow>
                     (case map_of hs ''tools/call'' of
                        Some originalHandler \<Rightarrow>
                          (True, a\<lparr>overrideApplied := True\<rparr>,
                           wrapToolCallHandler S lowLevelServer ''tools/call'' originalHandler)
                      | None \<Rightarrow>
                          if filter is_call_tool_key hs = [] then (False, a, S)
                          else (True, a\<lparr>overrideApplied := True\<rparr>,
                                wrap_entries S lowLevelServer (filter is_call_tool_key hs))))))"

text \<open>
  \<^verbatim>\<open>trackMcp\<close>: after \<^verbatim>\<open>initialize\<close> answered \<^verbatim>\<open>true\<close> it tries to override the server it was
  given. On success an initial session is started for that server. Otherwise the
  server's \<^verbatim>\<open>connect\<close>, and then its \<^verbatim>\<open>registerTool\<close> when it has one, are replaced by
  wrappers that try again later. \<^verbatim>\<open>server.connect.bind(server)\<close> comes first: for a \<^verbatim>\<open>null\<close>
  server and for a server without \<^verbatim>\<open>connect\<close> it throws into the \<^verbatim>\<open>catch\<close>, and nothing is
  replaced.
\<close>

definition trackMcp ::
  "AgnostAnalytics \<Rightarrow> store \<Rightarrow> nat option \<Rightarrow> string \<Rightarrow> ts_config option \<Rightarrow>
   AgnostAnalytics \<times> store" where
  "trackMcp a S server orgId config =
     (case initialize a server orgId config of
        (False, a1) \<Rightarrow> (a1, S)
      | (True, a1) \<Rightarrow>
          (case overrideMcpServer a1 S server of
             (True, a2, S2) \<Rightarrow> (a2\<lparr>initialSessions := initialSessions a2 @ [server]\<rparr>, S2)
           | (False, a2, S2) \<Rightarrow>
               (case server of
                  None \<Rightarrow> (a2, S2)
                | Some s \<Rightarrow>
                    if \<not> hasConnect (S2 s) then (a2, S2)
                    else
                      (a2, S2(s := (S2 s)\<lparr>connectWrappers := Suc (connectWrappers (S2 s)),
                            registerToolWrappers :=
                              (if hasRegisterTool (S2 s) then Suc (registerToolWrappers (S2 s))
                               else registerToolWrappers (S2 s))\<rparr>)))))"

section \<open>Example inputs\<close>

text \<open>
  Concrete inputs on which the models are evaluated below. \<open>example_env\<close> stands in for
  the built-in conversions: \<^verbatim>\<open>String\<close> of a string is that string; no example depends on
  what the stand-ins answer elsewhere.
\<close>

definition example_env :: js_env where
  "example_env =
     \<lparr>toStr = (\<lambda>v. case v of JStr s \<Rightarrow> s | other \<Rightarrow> ''[value]''),
      stringify = (\<lambda>v. Some (JStr ''[json]''))\<rparr>"

definition example_params :: ts_params where
  "example_params =
     \<lparr>builtins = example_env, identifyFn = None,
      uuidv4 = (\<lambda>n. if n = 0 then ''uuid-A'' else ''uuid-B''),
      clientName = ClientName ''default''\<rparr>"

definition answer_ok :: ts_input where
  "answer_ok = \<lparr>tools_found = Some [JStr ''echo''], response = Status 200\<rparr>"

definition answer_down :: ts_input where
  "answer_down = \<lparr>tools_found = Some [JStr ''echo''], response = TransportError\<rparr>"

definition answer_500 :: ts_input where
  "answer_500 = \<lparr>tools_found = Some [JStr ''echo''], response = Status 500\<rparr>"


definition example_uuid :: "nat \<Rightarrow> string" where
  "example_uuid n = (if n = 0 then ''uuid-A'' else ''uuid-B'')"

text \<open>A Go handler that fails with an error, and one that returns a flagged result.\<close>

definition failing_handler :: "nat \<Rightarrow> go_outcome" where
  "failing_handler a = GoReturns None (Some ''boom'')"

text \<open>A tool-call request whose arguments carry an organisation identifier.\<close>

definition org_request :: jsval where
  "org_request =
     JObj [(''params'',
            JObj [(''name'', JStr ''search''),
                  (''arguments'', JObj [(''org_id'', JStr ''acme''), (''q'', JStr ''x'')])])]"

definition ok_handler :: "jsval \<Rightarrow> outcome" where
  "ok_handler request = Returned (JStr ''done'')"

definition ok_function :: "jsval list \<Rightarrow> outcome" where
  "ok_function as = Returned (JStr ''done'')"

text \<open>
  A handler whose result carries \<^verbatim>\<open>isError\<close> with a text content, and carries it on its
  \<^verbatim>\<open>root\<close> as well, where the content is a single item instead of an array of items and
  so is not iterable.
\<close>

definition odd_result :: jsval where
  "odd_result =
     JObj [(''isError'', JBool True),
           (''content'', JArr [JObj [(''type'', JStr ''text''), (''text'', JStr ''not found'')]]),
           (''root'',
            JObj [(''isError'', JBool True),
                  (''content'', JObj [(''type'', JStr ''text''), (''text'', JStr ''not found'')])])]"

definition odd_handler :: "jsval \<Rightarrow> outcome" where
  "odd_handler request = Returned odd_result"

definition plain_manager :: SessionManager where
  "plain_manager = \<lparr>sessionIds = Map.empty, requestContext = JUndefined, cachedUser = JUndefined\<rparr>"

text \<open>Configurations with both privacy switches set, and a stand-in for \<^verbatim>\<open>json.Marshal\<close>.\<close>

definition private_config :: ts_config where
  "private_config =
     \<lparr>endpoint = ''https://api.agnost.ai'', disableInput = True, disableOutput = True,
      enableRequestQueuing = None\<rparr>"

definition private_go_config :: GoConfig where
  "private_go_config =
     \<lparr>DisableInput = True, DisableOutput = True, EnableRequestQueuing = True,
      BatchSize = 5, MaxRetries = 3, RetryDelay = 1000, HasIdentify = False\<rparr>"

definition example_marshal :: "nat \<Rightarrow> string option" where
  "example_marshal v = Some ''[json]''"

definition throwing_handler :: "jsval \<Rightarrow> outcome" where
  "throwing_handler request = Threw (JErr ''boom'')"

text \<open>Results that carry the error flag in the protocol's shape, on the value and on its root.\<close>

definition flagged_result :: jsval where
  "flagged_result =
     JObj [(''isError'', JBool True),
           (''content'', JArr [JObj [(''type'', JStr ''text''), (''text'', JStr ''not found'')]])]"

definition root_flagged_result :: jsval where
  "root_flagged_result = JObj [(''root'', flagged_result)]"

definition flagged_handler :: "jsval \<Rightarrow> outcome" where
  "flagged_handler request = Returned flagged_result"

text \<open>
  Identify functions: one that knows the user, one that throws, one whose answer lacks
  \<^verbatim>\<open>userId\<close>, one that answers \<^verbatim>\<open>false\<close>; and a session creation run to its end under the
  first.
\<close>

definition known_user :: jsval where
  "known_user = JObj [(''userId'', JStr ''u1''), (''role'', JStr ''admin'')]"










definition go_overlapping :: "(nat \<times> go_create) list" where
  "go_overlapping =
     [(0, Responded 200), (1, Responded 200), (0, Responded 200), (1, Responded 200),
      (0, Responded 200), (1, Responded 200)]"



text \<open>
  A store with three servers: server 1 has no request handlers yet, server 2 has a
  \<^verbatim>\<open>tools/list\<close> and a \<^verbatim>\<open>tools/call\<close> handler, server 3 has neither request handlers nor a
  \<^verbatim>\<open>connect\<close> method. And a valid configuration.
\<close>

definition bare_server :: server_obj where
  "bare_server =
     \<lparr>inner_server = None, requestHandlers = None, hasConnect = True,
      hasRegisterTool = False,
      connectWrappers = 0, registerToolWrappers = 0\<rparr>"

definition example_store :: store where
  "example_store =
     (\<lambda>h. bare_server)
       (2 := bare_server\<lparr>requestHandlers :=
               Some [(''tools/list'', Original 6), (''tools/call'', Original 7)]\<rparr>,
        3 := bare_server\<lparr>hasConnect := False\<rparr>)"

definition example_config :: "ts_config option" where
  "example_config =
     Some \<lparr>endpoint = ''https://api.agnost.ai'', disableInput = False, disableOutput = False,
           enableRequestQueuing = None\<rparr>"

text \<open>The client after \<^verbatim>\<open>trackMcp(server 1, ...)\<close>, and after \<^verbatim>\<open>trackMcp(server 2, ...)\<close>.\<close>

definition waiting_client :: AgnostAnalytics where
  "waiting_client = fst (trackMcp new_AgnostAnalytics example_store (Some 1) ''org'' example_config)"

definition waiting_store :: store where
  "waiting_store = snd (trackMcp new_AgnostAnalytics example_store (Some 1) ''org'' example_config)"

definition tracked_client :: AgnostAnalytics where
  "tracked_client = fst (trackMcp new_AgnostAnalytics example_store (Some 2) ''org'' example_config)"

definition tracked_store :: store where
  "tracked_store = snd (trackMcp new_AgnostAnalytics example_store (Some 2) ''org'' example_config)"

text \<open>An idle Go event processor.\<close>

definition idle_processor :: EventProcessor where
  "idle_processor = \<lparr>queue = [], batchQueue = [], cancelled = False\<rparr>"

definition example_event :: GoEventData where
  "example_event =
     \<lparr>SessionID = ''s'', PrimitiveType = ''tool'', PrimitiveName = ''echo'', Latency = 7,
      Success = True, Input = ''{}'', Output = ''ok''\<rparr>"

text \<open>
  An identify function that knows the user only when no request context is set, and a run
  in which a session is created, a request arrives, and a session is created under
  another key.
\<close>

definition identify_by_context :: "jsval \<Rightarrow> outcome" where
  "identify_by_context context = (if context = JUndefined then Returned known_user else Returned JNull)"

definition context_params :: ts_params where
  "context_params =
     \<lparr>builtins = example_env, identifyFn = Some identify_by_context, uuidv4 = example_uuid,
      clientName = ClientName ''default''\<rparr>"

definition two_creations :: "ts_event list" where
  "two_creations =
     [Resume 0 ''k'' False answer_ok, Resume 0 ''k'' False answer_ok,
      Resume 0 ''k'' False answer_ok, Resume 0 ''k'' False answer_ok,
      NewRequestContext org_request,
      Resume 1 ''k2'' False answer_ok, Resume 1 ''k2'' False answer_ok,
      Resume 1 ''k2'' False answer_ok, Resume 1 ''k2'' False answer_ok]"






section \<open>Retry discipline of the batching processor\<close>

lemma send_loop_fail_step:
  assumes "attempt \<le> MaxRetries cfg"
    and "\<forall>c. net attempt = Status c \<longrightarrow> \<not> (200 \<le> c \<and> c < 300)"
  shows "\<exists>e. send_loop cfg net i attempt lastErr =
           (fst (send_loop cfg net i (attempt + 1) (Some e)),
            (if attempt > 0 then [SleepFor i (RetryDelay cfg)] else []) @
            HttpDo i # snd (send_loop cfg net i (attempt + 1) (Some e)))"
proof (cases "net attempt")
  case TransportError
  then show ?thesis
    using assms(1)
    by (subst send_loop.simps) (auto simp: Let_def split: prod.splits intro!: exI [of _ DoFailed])
next
  case (Status c)
  then show ?thesis
    using assms
    by (subst send_loop.simps) (auto simp: Let_def split: prod.splits intro!: exI [of _ "BadStatus c"])
qed

lemma send_loop_done:
  "MaxRetries cfg < attempt \<Longrightarrow>
   send_loop cfg net i attempt lastErr = (Some (RetriesExhausted (MaxRetries cfg) lastErr), [])"
  by (subst send_loop.simps) simp

lemma send_loop_pos:
  "a \<in> set (snd (send_loop cfg net i attempt lastErr)) \<Longrightarrow> action_pos a = i"
proof (induction cfg net i attempt lastErr arbitrary: a rule: send_loop.induct)
  case (1 cfg net i attempt lastErr)
  show ?case
  proof (cases "attempt \<le> MaxRetries cfg")
    case False
    with "1.prems" show ?thesis
      by (simp add: send_loop_done)
  next
    case True
    show ?thesis
    proof (cases "net attempt")
      case TransportError
      with True "1.prems" "1.IH"(1) [OF True refl TransportError] show ?thesis
        by (subst (asm) send_loop.simps) (auto simp: Let_def split: prod.splits if_splits)
    next
      case (Status c)
      show ?thesis
      proof (cases "200 \<le> c \<and> c < 300")
        case ok: True
        with True Status "1.prems" show ?thesis
          by (subst (asm) send_loop.simps) (auto simp: Let_def split: if_splits)
      next
        case bad: False
        with True Status "1.prems" "1.IH"(2) [OF True refl Status bad] show ?thesis
          by (subst (asm) send_loop.simps) (auto simp: Let_def split: prod.splits if_splits)
      qed
    qed
  qed
qed

lemma sendEvent_pos:
  "a \<in> set (snd (sendEvent cfg url_ok net i e)) \<Longrightarrow> action_pos a = i"
  by (auto simp: sendEvent_def dest: send_loop_pos split: if_splits)

lemma sendEvent_all_fail_2:
  assumes "MaxRetries cfg = 2" and "url_ok"
    and "\<forall>k c. net k = Status c \<longrightarrow> \<not> (200 \<le> c \<and> c < 300)"
  shows "\<exists>err. sendEvent cfg url_ok net i e =
           (Some (RetriesExhausted 2 (Some err)),
            [HttpDo i, SleepFor i (RetryDelay cfg), HttpDo i, SleepFor i (RetryDelay cfg), HttpDo i])"
proof -
  have fail: "\<forall>c. net k = Status c \<longrightarrow> \<not> (200 \<le> c \<and> c < 300)" for k
    using assms(3) by blast
  obtain e0 where s0: "send_loop cfg net i 0 None =
      (fst (send_loop cfg net i 1 (Some e0)), HttpDo i # snd (send_loop cfg net i 1 (Some e0)))"
    using send_loop_fail_step [of 0 cfg net i None] assms(1) fail [of 0] by auto
  obtain e1 where s1: "send_loop cfg net i 1 (Some e0) =
      (fst (send_loop cfg net i 2 (Some e1)),
       SleepFor i (RetryDelay cfg) # HttpDo i # snd (send_loop cfg net i 2 (Some e1)))"
    using send_loop_fail_step [of 1 cfg net i "Some e0"] assms(1) fail [of 1] by auto
  obtain e2 where s2: "send_loop cfg net i 2 (Some e1) =
      (fst (send_loop cfg net i 3 (Some e2)),
       SleepFor i (RetryDelay cfg) # HttpDo i # snd (send_loop cfg net i 3 (Some e2)))"
    using send_loop_fail_step [of 2 cfg net i "Some e1"] assms(1) fail [of 2] by auto
  have s3: "send_loop cfg net i 3 (Some e2) = (Some (RetriesExhausted 2 (Some e2)), [])"
    using send_loop_done [of cfg 3 net i "Some e2"] assms(1) by simp
  show ?thesis
    using assms(2) by (auto simp: sendEvent_def s0 s1 s2 s3)
qed

lemma send_batch_other:
  "i < j \<Longrightarrow> filter (\<lambda>a. action_pos a = i) (send_batch cfg url_ok net j es) = []"
proof (induction es arbitrary: j)
  case Nil
  then show ?case by simp
next
  case (Cons e es)
  have "\<forall>a \<in> set (snd (sendEvent cfg url_ok (net j) j e)). action_pos a \<noteq> i"
    using Cons.prems sendEvent_pos by fastforce
  then have "filter (\<lambda>a. action_pos a = i) (snd (sendEvent cfg url_ok (net j) j e)) = []"
    by (simp add: filter_empty_conv)
  moreover have "filter (\<lambda>a. action_pos a = i) (send_batch cfg url_ok net (Suc j) es) = []"
    using Cons.IH [of "Suc j"] Cons.prems by simp
  ultimately show ?case
    using Cons.prems by (auto split: prod.splits option.splits)
qed

lemma send_batch_at:
  assumes "MaxRetries cfg = 2" and "url_ok"
    and "\<forall>k c. net i k = Status c \<longrightarrow> \<not> (200 \<le> c \<and> c < 300)"
  shows "j \<le> i \<Longrightarrow> i < j + length es \<Longrightarrow>
     filter (\<lambda>a. action_pos a = i) (send_batch cfg url_ok net j es) =
       [HttpDo i, SleepFor i (RetryDelay cfg), HttpDo i, SleepFor i (RetryDelay cfg), HttpDo i,
        WarnFailedToSend i]"
proof (induction es arbitrary: j)
  case Nil
  then show ?case by simp
next
  case (Cons e es)
  show ?case
  proof (cases "j = i")
    case True
    obtain err where se: "sendEvent cfg url_ok (net i) i e =
           (Some (RetriesExhausted 2 (Some err)),
            [HttpDo i, SleepFor i (RetryDelay cfg), HttpDo i, SleepFor i (RetryDelay cfg), HttpDo i])"
      using sendEvent_all_fail_2 [OF assms(1,2), of "net i" i e] assms(3) by blast
    have "filter (\<lambda>a. action_pos a = i) (send_batch cfg url_ok net (Suc i) es) = []"
      by (rule send_batch_other) simp
    with True se show ?thesis by simp
  next
    case False
    then have lt: "j < i" using Cons.prems by simp
    have "\<forall>a \<in> set (snd (sendEvent cfg url_ok (net j) j e)). action_pos a \<noteq> i"
      using lt sendEvent_pos by fastforce
    then have none: "filter (\<lambda>a. action_pos a = i) (snd (sendEvent cfg url_ok (net j) j e)) = []"
      by (simp add: filter_empty_conv)
    have "filter (\<lambda>a. action_pos a = i) (send_batch cfg url_ok net (Suc j) es) =
       [HttpDo i, SleepFor i (RetryDelay cfg), HttpDo i, SleepFor i (RetryDelay cfg), HttpDo i,
        WarnFailedToSend i]"
      using Cons.IH [of "Suc j"] Cons.prems lt by simp
    with none lt show ?thesis
      by (auto split: prod.splits option.splits)
  qed
qed

text \<open>
  Claim C6. In batching mode with \<^verbatim>\<open>MaxRetries = 2\<close>, an event of the flushed batch whose
  every delivery attempt fails (a transport error or a status outside 200..299) is
  attempted exactly three times, with one \<^verbatim>\<open>RetryDelay\<close> sleep before the second and before
  the third attempt; then a warning is logged for it. The flush leaves the batch buffer
  empty and the channel untouched, so the event is held nowhere and a later flush does
  nothing for it.
\<close>

theorem flushBatch_retries_then_drops:
  assumes "MaxRetries cfg = 2" and "url_ok" and "i < length (batchQueue ep)"
    and "\<forall>k c. net i k = Status c \<longrightarrow> \<not> (200 \<le> c \<and> c < 300)"
  shows "filter (\<lambda>a. action_pos a = i) (snd (flushBatch cfg url_ok net ep)) =
           [HttpDo i, SleepFor i (RetryDelay cfg), HttpDo i, SleepFor i (RetryDelay cfg),
            HttpDo i, WarnFailedToSend i]
       \<and> length (filter is_attempt
            (filter (\<lambda>a. action_pos a = i) (snd (flushBatch cfg url_ok net ep)))) = 3
       \<and> batchQueue (fst (flushBatch cfg url_ok net ep)) = []
       \<and> queue (fst (flushBatch cfg url_ok net ep)) = queue ep
       \<and> snd (flushBatch cfg url_ok net' (fst (flushBatch cfg url_ok net ep))) = []
       \<and> snd (Flush cfg url_ok net' (fst (flushBatch cfg url_ok net ep))) = []"
proof -
  have ne: "length (batchQueue ep) \<noteq> 0"
    using assms(3) by auto
  have r: "flushBatch cfg url_ok net ep =
      (ep\<lparr>batchQueue := []\<rparr>, send_batch cfg url_ok net 0 (batchQueue ep))"
    using ne by (simp add: flushBatch_def)
  have tr: "filter (\<lambda>a. action_pos a = i) (send_batch cfg url_ok net 0 (batchQueue ep)) =
           [HttpDo i, SleepFor i (RetryDelay cfg), HttpDo i, SleepFor i (RetryDelay cfg),
            HttpDo i, WarnFailedToSend i]"
    using send_batch_at [where cfg = cfg and net = net and i = i and j = 0
        and es = "batchQueue ep" and url_ok = url_ok] assms
    by simp
  show ?thesis
    unfolding r fst_conv snd_conv tr
    by (simp add: flushBatch_def Flush_def)
qed

theorem flushBatch_retries_then_drops_witness:
  "(let cfg = \<lparr>DisableInput = False, DisableOutput = False, EnableRequestQueuing = True,
               BatchSize = 5, MaxRetries = 2, RetryDelay = 1000, HasIdentify = False\<rparr>;
        e = \<lparr>SessionID = ''s'', PrimitiveType = ''tool'', PrimitiveName = ''echo'',
             Latency = 7, Success = True, Input = ''{}'', Output = ''ok''\<rparr>;
        ep = \<lparr>queue = [], batchQueue = [e], cancelled = False\<rparr>;
        net = (\<lambda>i k. if k = 1 then Status 503 else TransportError)
    in MaxRetries cfg = 2 \<and> 0 < length (batchQueue ep)
       \<and> (\<forall>k c. net (0::nat) k = Status c \<longrightarrow> \<not> (200 \<le> c \<and> c < 300))
       \<and> filter (\<lambda>a. action_pos a = 0) (snd (flushBatch cfg True net ep)) =
           [HttpDo 0, SleepFor 0 1000, HttpDo 0, SleepFor 0 1000, HttpDo 0, WarnFailedToSend 0]
       \<and> batchQueue (fst (flushBatch cfg True net ep)) = [])"
  using flushBatch_retries_then_drops
    [of "\<lparr>DisableInput = False, DisableOutput = False, EnableRequestQueuing = True,
               BatchSize = 5, MaxRetries = 2, RetryDelay = 1000, HasIdentify = False\<rparr>"
        True 0
        "\<lparr>queue = [], batchQueue = [\<lparr>SessionID = ''s'', PrimitiveType = ''tool'',
             PrimitiveName = ''echo'', Latency = 7, Success = True, Input = ''{}'',
             Output = ''ok''\<rparr>], cancelled = False\<rparr>"
        "\<lambda>i k. if k = 1 then Status 503 else TransportError"]
  by (simp add: Let_def)

section \<open>Privacy switches\<close>

lemma recordEvent_payload:
  "delivered_payload (snd (recordEvent env config orgId sessionId send_ok pt pn a l s r)) = Some e
   \<Longrightarrow> sessionId \<noteq> []
     \<and> Some (args e) = (if disableInput config then Some (JStr []) else
                         if a \<noteq> JNull then stringify env a else Some (JStr []))
     \<and> result e = serializeResult env (if disableOutput config then JNull else r)
     \<and> success e = s \<and> event_session_id e = sessionId \<and> primitive_name e = pn
     \<and> primitive_type e = pt \<and> latency e = l \<and> org_id e = orgId"
  by (auto simp: recordEvent_def Let_def split: if_splits option.splits)

lemma recordEvent_built:
  "sessionId \<noteq> [] \<Longrightarrow> disableInput config \<or> a = JNull \<or> stringify env a \<noteq> None \<Longrightarrow>
   delivered_payload (snd (recordEvent env config orgId sessionId send_ok pt pn a l s r)) \<noteq> None"
  by (auto simp: recordEvent_def Let_def split: if_splits option.splits)

lemma RecordEvent_payload:
  "go_delivered_payload (snd (RecordEvent config marshal init session send_err pt pn a l s r)) = Some e
   \<Longrightarrow> init \<and> snd session = None
     \<and> Input e = marshal_unless (DisableInput config) marshal a
     \<and> Output e = marshal_unless (DisableOutput config) marshal r
     \<and> Success e = s \<and> SessionID e = fst session"
  by (auto simp: RecordEvent_def Let_def split: if_splits option.splits prod.splits)

lemma RecordEvent_built:
  "init \<Longrightarrow> snd session = None \<Longrightarrow>
   go_delivered_payload (snd (RecordEvent config marshal init session send_err pt pn a l s r)) \<noteq> None"
  by (auto simp: RecordEvent_def Let_def split: if_splits option.splits prod.splits)

text \<open>
  Claim C5. While \<^verbatim>\<open>disableInput\<close> is set, every payload that \<^verbatim>\<open>recordEvent\<close> puts on the
  queue or sends has the empty string as its \<^verbatim>\<open>args\<close>, whatever the arguments were, and a
  payload is built whenever a session id is at hand; while \<^verbatim>\<open>disableOutput\<close> is set, every
  such payload has the empty string as its \<^verbatim>\<open>result\<close>. The same holds of the \<^verbatim>\<open>Input\<close> and
  \<^verbatim>\<open>Output\<close> fields of the Go SDK's \<^verbatim>\<open>RecordEvent\<close>.
\<close>

theorem disabled_fields_are_empty:
  "(disableInput config \<longrightarrow>
      (sessionId \<noteq> [] \<longrightarrow>
         delivered_payload (snd (recordEvent env config orgId sessionId send_ok pt pn a l s r)) \<noteq> None)
      \<and> (\<forall>e. delivered_payload (snd (recordEvent env config orgId sessionId send_ok pt pn a l s r))
               = Some e \<longrightarrow> args e = JStr []))
   \<and> (disableOutput config \<longrightarrow>
      (\<forall>e. delivered_payload (snd (recordEvent env config orgId sessionId send_ok pt pn a l s r))
               = Some e \<longrightarrow> result e = JStr []))
   \<and> (DisableInput gconfig \<longrightarrow>
      (init \<and> snd session = None \<longrightarrow>
         go_delivered_payload (snd (RecordEvent gconfig marshal init session send_err pt pn ga l s gr))
           \<noteq> None)
      \<and> (\<forall>e. go_delivered_payload
               (snd (RecordEvent gconfig marshal init session send_err pt pn ga l s gr)) = Some e
             \<longrightarrow> Input e = []))
   \<and> (DisableOutput gconfig \<longrightarrow>
      (\<forall>e. go_delivered_payload
               (snd (RecordEvent gconfig marshal init session send_err pt pn ga l s gr)) = Some e
             \<longrightarrow> Output e = []))"
proof (intro conjI impI allI)
  assume "disableInput config" and "sessionId \<noteq> []"
  then show "delivered_payload (snd (recordEvent env config orgId sessionId send_ok pt pn a l s r))
      \<noteq> None"
    by (simp add: recordEvent_built)
next
  fix e
  assume "disableInput config"
    and "delivered_payload (snd (recordEvent env config orgId sessionId send_ok pt pn a l s r)) = Some e"
  then show "args e = JStr []"
    using recordEvent_payload [of env config orgId sessionId send_ok pt pn a l s r e] by simp
next
  fix e
  assume "disableOutput config"
    and "delivered_payload (snd (recordEvent env config orgId sessionId send_ok pt pn a l s r)) = Some e"
  then show "result e = JStr []"
    using recordEvent_payload [of env config orgId sessionId send_ok pt pn a l s r e]
    by (simp add: serializeResult_def)
next
  assume "DisableInput gconfig" and "init \<and> snd session = None"
  then show "go_delivered_payload
      (snd (RecordEvent gconfig marshal init session send_err pt pn ga l s gr)) \<noteq> None"
    by (simp add: RecordEvent_built)
next
  fix e
  assume "DisableInput gconfig"
    and "go_delivered_payload
          (snd (RecordEvent gconfig marshal init session send_err pt pn ga l s gr)) = Some e"
  then show "Input e = []"
    using RecordEvent_payload [of gconfig marshal init session send_err pt pn ga l s gr e]
    by (simp add: marshal_unless_def)
next
  fix e
  assume "DisableOutput gconfig"
    and "go_delivered_payload
          (snd (RecordEvent gconfig marshal init session send_err pt pn ga l s gr)) = Some e"
  then show "Output e = []"
    using RecordEvent_payload [of gconfig marshal init session send_err pt pn ga l s gr e]
    by (simp add: marshal_unless_def)
qed

theorem disabled_fields_are_empty_witness:
  "disableInput private_config \<and> disableOutput private_config
   \<and> delivered_payload
       (snd (recordEvent example_env private_config ''org'' ''sid'' True ''tool'' ''search''
              (JObj [(''q'', JStr ''secret'')]) 3 True (JStr ''answer''))) =
       Some \<lparr>org_id = ''org'', event_session_id = ''sid'', primitive_type = ''tool'',
             primitive_name = ''search'', latency = 3, success = True, args = JStr [],
             result = JStr []\<rparr>
   \<and> DisableInput private_go_config \<and> DisableOutput private_go_config
   \<and> go_delivered_payload
       (snd (RecordEvent private_go_config example_marshal True (''sid'', None) None ''tool''
              ''search'' (Some 1) 3 True (Some 2))) =
       Some \<lparr>SessionID = ''sid'', PrimitiveType = ''tool'', PrimitiveName = ''search'',
             Latency = 3, Success = True, Input = [], Output = []\<rparr>"
  using disabled_fields_are_empty [of private_config "''sid''" example_env "''org''" True
      "''tool''" "''search''" "JObj [(''q'', JStr ''secret'')]" 3 True "JStr ''answer''"
      private_go_config True "(''sid'', None)" example_marshal None "Some 1" "Some 2"]
  by (simp add: private_config_def private_go_config_def recordEvent_def RecordEvent_def
      serializeResult_def marshal_unless_def Let_def)

section \<open>Flushing the request queue\<close>

lemma flush_returns_before_last_of_three:
  "flush [[Settles, DelayElapses], [Settles, DelayElapses]]
     (enqueue 3 (enqueue 2 (enqueue 1 new_RequestQueue))) =
   Some \<lparr>waiting = [], isProcessing = True, worker = AwaitRequest 3, settled = [1, 2]\<rparr>"
  by (simp add: enqueue_def processQueue_def processQueue_loop_def new_RequestQueue_def
      flush_waits_def request_settles_def delay_elapses_def Let_def)

lemma go_Flush_skips_channel:
  "Flush cfg url_ok net (QueueEvent False example_event idle_processor) =
     (\<lparr>queue = [example_event], batchQueue = [], cancelled = False\<rparr>, [])"
  by (simp add: Flush_def QueueEvent_def idle_processor_def queue_capacity_def)

text \<open>
  Claim C7 on the code. One request is enqueued on a new queue: \<^verbatim>\<open>processQueue\<close> shifts it
  off the queue and awaits it. \<^verbatim>\<open>flush\<close>, called now, finds the queue empty and returns at
  once, while the request is still in flight and has not settled.
\<close>

theorem flush_returns_with_request_in_flight:
  "flush [] (enqueue 1 new_RequestQueue) =
     Some \<lparr>waiting = [], isProcessing = True, worker = AwaitRequest 1, settled = []\<rparr>
   \<and> unsettled (enqueue 1 new_RequestQueue) = [1]"
  by (simp add: enqueue_def processQueue_def processQueue_loop_def new_RequestQueue_def
      flush_waits_def unsettled_def Let_def)

section \<open>Filtering of organisation identifiers\<close>

lemma filter_arg_strips:
  "filter_arg (JObj kvs) = Some (JObj kvs') \<Longrightarrow> k \<in> set (map fst kvs') \<Longrightarrow> \<not> is_org_key k"
  by (auto split: if_splits)

lemma createWrapper_strips_example:
  "createWrapper ''tool'' ''search'' ok_function 3 False
     [JObj [(''org_id'', JStr ''acme''), (''q'', JStr ''x'')]] =
   ([RecordEventCalled
       \<lparr>call_type = ''tool'', call_name = ''search'',
        call_args = JArr [JObj [(''q'', JStr ''x'')]],
        call_latency = 3, call_success = True, call_result = JStr ''done''\<rparr>],
    Returned (JStr ''done''))"
  by (simp add: createWrapper_def ok_function_def record_finally_def is_org_key_def Let_def)

text \<open>
  Claim C8 at the tool-call path. \<^verbatim>\<open>createWrapper\<close> filters the arguments before it records
  them, but the handler that \<^verbatim>\<open>wrapToolCallHandler\<close> installs passes the request's arguments
  to \<^verbatim>\<open>recordEvent\<close> as they are: for a request whose arguments hold \<^verbatim>\<open>org_id\<close>, the recorded
  arguments still hold it.
\<close>

theorem tool_call_arguments_keep_org_id:
  "wrappedHandler example_env False ok_handler 3 False plain_manager org_request =
     (plain_manager,
      [HandlerCalled org_request,
       RecordEventCalled
         \<lparr>call_type = ''tool'', call_name = ''search'',
          call_args = JObj [(''org_id'', JStr ''acme''), (''q'', JStr ''x'')],
          call_latency = 3, call_success = True, call_result = JStr ''done''\<rparr>],
      Returned (JStr ''done''))"
  by (simp add: wrappedHandler_def ok_handler_def org_request_def
      isMcpErrorResponse_def isMcpErrorResponse_try_def root_branch_def direct_branch_def
      hasattr_def record_finally_def recorded_call_def request_toolName_def request_arguments_def js_get_opt_def
      example_env_def Let_def)

section \<open>Steps of a session creation\<close>

lemma step_NotCalled:
  "calls w c = NotCalled \<Longrightarrow>
   startSession_step P c key dummy inp w =
     (case (if dummy then Absent else lookup_session (sessionIds (mgr w)) key) of
        Cached sid \<Rightarrow> w\<lparr>calls := (calls w)(c := Finished sid)\<rparr>
      | Inherited \<Rightarrow> w\<lparr>calls := (calls w)(c := FinishedInherited key)\<rparr>
      | Absent \<Rightarrow>
          if \<not> dummy \<and> clientName P = ExtractionThrows
          then w\<lparr>generated := Suc (generated w),
                 logged := logged w @ [failure_log False],
                 calls := (calls w)(c := Finished [])\<rparr>
          else w\<lparr>generated := Suc (generated w),
                 calls := (calls w)(c := AwaitIdentify key dummy (uuidv4 P (generated w))
                            (identifyUser_begin (identifyFn P) (mgr w)))\<rparr>)"
  by (simp add: startSession_step_def)

lemma step_AwaitIdentify:
  "calls w c = AwaitIdentify k d newId pending \<Longrightarrow>
   startSession_step P c key dummy inp w =
     (case identifyUser_finish (builtins P) pending (mgr w) of
        (m', lg, Threw e) \<Rightarrow>
          w\<lparr>mgr := m', logged := logged w @ lg @ [failure_log d],
            calls := (calls w)(c := Finished [])\<rparr>
      | (m', lg, Returned user) \<Rightarrow>
          if d then post_session P c k True newId user [] (w\<lparr>mgr := m', logged := logged w @ lg\<rparr>)
          else w\<lparr>mgr := m', logged := logged w @ lg,
                 calls := (calls w)(c := AwaitTools k newId user)\<rparr>)"
  by (simp add: startSession_step_def)

lemma step_AwaitTools:
  "calls w c = AwaitTools k newId user \<Longrightarrow>
   startSession_step P c key dummy inp w =
     (case tools_found inp of
        None \<Rightarrow>
          w\<lparr>logged := logged w @ [failure_log False], calls := (calls w)(c := Finished [])\<rparr>
      | Some found \<Rightarrow> post_session P c k False newId user found w)"
  by (simp add: startSession_step_def)

lemma step_AwaitSend:
  "calls w c = AwaitSend k d newId user body \<Longrightarrow>
   startSession_step P c key dummy inp w =
     (if \<not> post_ok (response inp) \<or> info_line_throws d user
      then w\<lparr>logged := logged w @ [failure_log d], calls := (calls w)(c := Finished [])\<rparr>
      else w\<lparr>mgr := (if d then mgr w
                      else (mgr w)\<lparr>sessionIds := (sessionIds (mgr w))(k \<mapsto> newId)\<rparr>),
             pool := returnSessionData body (pool w),
             calls := (calls w)(c := Finished newId)\<rparr>)"
  by (simp add: startSession_step_def)

lemma info_line_throws_False [simp]: "\<not> info_line_throws False user"
  by (simp add: info_line_throws_def)

lemma step_Finished:
  "calls w c = Finished r \<Longrightarrow> startSession_step P c key dummy inp w = w"
  by (simp add: startSession_step_def)


lemma identifyUser_finish_sessionIds:
  "identifyUser_finish env pending sm = (m', lg, oc) \<Longrightarrow> sessionIds m' = sessionIds sm"
  by (auto simp: identifyUser_finish_def
      split: identify_pending.splits outcome.splits if_splits option.splits)

lemma fill_SessionData_id [simp]:
  "session_id (fill_SessionData name d newId user found obj) = newId"
  by (simp add: fill_SessionData_def Let_def)

lemma post_session_cases:
  obtains (sent) body where
      "calls (post_session P c k d newId user found w) c = AwaitSend k d newId user body"
      "posted (post_session P c k d newId user found w) = posted w @ [body]"
      "session_id body = newId"
      "mgr (post_session P c k d newId user found w) = mgr w"
      "logged (post_session P c k d newId user found w) = logged w"
      "generated (post_session P c k d newId user found w) = generated w"
      "\<And>c'. c' \<noteq> c \<Longrightarrow> calls (post_session P c k d newId user found w) c' = calls w c'"
    | (unsent)
      "calls (post_session P c k d newId user found w) c = Finished []"
      "posted (post_session P c k d newId user found w) = posted w"
      "mgr (post_session P c k d newId user found w) = mgr w"
      "logged (post_session P c k d newId user found w) = logged w @ [failure_log d]"
      "generated (post_session P c k d newId user found w) = generated w"
      "\<And>c'. c' \<noteq> c \<Longrightarrow> calls (post_session P c k d newId user found w) c' = calls w c'"
proof (cases "client_config_text P d")
  case None
  show ?thesis
  proof (rule unsent)
    show "calls (post_session P c k d newId user found w) c = Finished []"
      using None by (cases "getSessionData (pool w)") (simp add: post_session_def)
    show "posted (post_session P c k d newId user found w) = posted w"
      using None by (cases "getSessionData (pool w)") (simp add: post_session_def)
    show "mgr (post_session P c k d newId user found w) = mgr w"
      using None by (cases "getSessionData (pool w)") (simp add: post_session_def)
    show "logged (post_session P c k d newId user found w) = logged w @ [failure_log d]"
      using None by (cases "getSessionData (pool w)") (simp add: post_session_def)
    show "generated (post_session P c k d newId user found w) = generated w"
      using None by (cases "getSessionData (pool w)") (simp add: post_session_def)
    show "\<And>c'. c' \<noteq> c \<Longrightarrow> calls (post_session P c k d newId user found w) c' = calls w c'"
      using None by (cases "getSessionData (pool w)") (simp add: post_session_def)
  qed
next
  case (Some name)
  show ?thesis
  proof (cases "serialisable (builtins P)
          (fill_SessionData name d newId user found (fst (getSessionData (pool w))))")
    case True
    show ?thesis
    proof (rule sent [of "fill_SessionData name d newId user found (fst (getSessionData (pool w)))"])
      show "calls (post_session P c k d newId user found w) c =
          AwaitSend k d newId user
            (fill_SessionData name d newId user found (fst (getSessionData (pool w))))"
        using True Some by (cases "getSessionData (pool w)") (simp add: post_session_def Let_def)
      show "posted (post_session P c k d newId user found w) =
          posted w @ [fill_SessionData name d newId user found (fst (getSessionData (pool w)))]"
        using True Some by (cases "getSessionData (pool w)") (simp add: post_session_def Let_def)
      show "session_id (fill_SessionData name d newId user found (fst (getSessionData (pool w))))
          = newId"
        by simp
      show "mgr (post_session P c k d newId user found w) = mgr w"
        using True Some by (cases "getSessionData (pool w)") (simp add: post_session_def Let_def)
      show "logged (post_session P c k d newId user found w) = logged w"
        using True Some by (cases "getSessionData (pool w)") (simp add: post_session_def Let_def)
      show "generated (post_session P c k d newId user found w) = generated w"
        using True Some by (cases "getSessionData (pool w)") (simp add: post_session_def Let_def)
      show "\<And>c'. c' \<noteq> c \<Longrightarrow> calls (post_session P c k d newId user found w) c' = calls w c'"
        using True Some by (cases "getSessionData (pool w)") (simp add: post_session_def Let_def)
    qed
  next
    case False
    show ?thesis
    proof (rule unsent)
      show "calls (post_session P c k d newId user found w) c = Finished []"
        using False Some by (cases "getSessionData (pool w)") (simp add: post_session_def Let_def)
      show "posted (post_session P c k d newId user found w) = posted w"
        using False Some by (cases "getSessionData (pool w)") (simp add: post_session_def Let_def)
      show "mgr (post_session P c k d newId user found w) = mgr w"
        using False Some by (cases "getSessionData (pool w)") (simp add: post_session_def Let_def)
      show "logged (post_session P c k d newId user found w) = logged w @ [failure_log d]"
        using False Some by (cases "getSessionData (pool w)") (simp add: post_session_def Let_def)
      show "generated (post_session P c k d newId user found w) = generated w"
        using False Some by (cases "getSessionData (pool w)") (simp add: post_session_def Let_def)
      show "\<And>c'. c' \<noteq> c \<Longrightarrow> calls (post_session P c k d newId user found w) c' = calls w c'"
        using False Some by (cases "getSessionData (pool w)") (simp add: post_session_def Let_def)
    qed
  qed
qed


lemma lookup_session_Absent:
  "lookup_session ids key = Absent \<longleftrightarrow> ids key = None \<and> key \<notin> set object_prototype_names"
  by (simp add: lookup_session_def split: option.splits)

lemma lookup_session_Cached:
  "lookup_session ids key = Cached sid \<longleftrightarrow> ids key = Some sid"
  by (simp add: lookup_session_def split: option.splits)

lemma startSession_failure_ts:
  assumes nc: "calls w c = NotCalled" and miss: "lookup_session (sessionIds (mgr w)) key = Absent"
    and bad: "\<not> post_ok (response inp)"
  shows "calls (startSession P c key False inp w) c = Finished []
       \<and> sessionIds (mgr (startSession P c key False inp w)) = sessionIds (mgr w)
       \<and> last (logged (startSession P c key False inp w)) = Warning ''Failed to start session''"
proof -
  define w1 where "w1 = startSession_step P c key False inp w"
  define w2 where "w2 = startSession_step P c key False inp w1"
  define w3 where "w3 = startSession_step P c key False inp w2"
  define w4 where "w4 = startSession_step P c key False inp w3"
  have all: "startSession P c key False inp w = w4"
    by (simp add: startSession_def w1_def w2_def w3_def w4_def)
  have stay: "startSession_step P c key False inp v = v" if "calls v c = Finished []" for v
    using that by (rule step_Finished)
  show ?thesis
  proof (cases "clientName P = ExtractionThrows")
    case True
    have e1: "w1 = w\<lparr>generated := Suc (generated w), logged := logged w @ [failure_log False],
                      calls := (calls w)(c := Finished [])\<rparr>"
      using miss True by (simp add: w1_def step_NotCalled [OF nc])
    then have f1: "calls w1 c = Finished []" by simp
    have "w4 = w1"
      using f1 by (simp add: w4_def w3_def w2_def stay)
    then show ?thesis
      by (simp add: all e1 failure_log_def)
  next
    case False
    have e1: "w1 = w\<lparr>generated := Suc (generated w),
                 calls := (calls w)(c := AwaitIdentify key False (uuidv4 P (generated w))
                            (identifyUser_begin (identifyFn P) (mgr w)))\<rparr>"
      using miss False by (simp add: w1_def step_NotCalled [OF nc])
    then have s1: "calls w1 c = AwaitIdentify key False (uuidv4 P (generated w))
              (identifyUser_begin (identifyFn P) (mgr w))" "mgr w1 = mgr w"
      by simp_all
    obtain m' lg oc where fin: "identifyUser_finish (builtins P)
        (identifyUser_begin (identifyFn P) (mgr w)) (mgr w1) = (m', lg, oc)"
      by (metis prod_cases3)
    have keep: "sessionIds m' = sessionIds (mgr w)"
      using identifyUser_finish_sessionIds [OF fin] s1 by simp
    show ?thesis
    proof (cases oc)
      case (Threw e)
      have e2: "w2 = w1\<lparr>mgr := m', logged := logged w1 @ lg @ [failure_log False],
                  calls := (calls w1)(c := Finished [])\<rparr>"
        using fin Threw by (simp add: w2_def step_AwaitIdentify [OF s1(1)])
      then have f2: "calls w2 c = Finished []" by simp
      have "w4 = w2"
        using f2 by (simp add: w4_def w3_def stay)
      then show ?thesis
        using keep by (simp add: all e2 failure_log_def)
    next
      case (Returned v)
      have e2: "w2 = w1\<lparr>mgr := m', logged := logged w1 @ lg,
                  calls := (calls w1)(c := AwaitTools key (uuidv4 P (generated w)) v)\<rparr>"
        using fin Returned by (simp add: w2_def step_AwaitIdentify [OF s1(1)])
      then have s2: "calls w2 c = AwaitTools key (uuidv4 P (generated w)) v" "mgr w2 = m'"
        by simp_all
      show ?thesis
      proof (cases "tools_found inp")
        case None
        have e3: "w3 = w2\<lparr>logged := logged w2 @ [failure_log False],
                    calls := (calls w2)(c := Finished [])\<rparr>"
          using None by (simp add: w3_def step_AwaitTools [OF s2(1)])
        then have f3: "calls w3 c = Finished []" by simp
        have "w4 = w3"
          using f3 by (simp add: w4_def stay)
        then show ?thesis
          using keep s2 by (simp add: all e3 failure_log_def)
      next
        case (Some found)
        have s3: "w3 = post_session P c key False (uuidv4 P (generated w)) v found w2"
          using Some by (simp add: w3_def step_AwaitTools [OF s2(1)])
        show ?thesis
        proof (cases rule: post_session_cases
            [of P c key False "uuidv4 P (generated w)" v found w2])
          case (sent body)
          have pc3: "calls w3 c = AwaitSend key False (uuidv4 P (generated w)) v body"
            using sent(1) s3 by simp
          have "w4 = w3\<lparr>logged := logged w3 @ [failure_log False],
                            calls := (calls w3)(c := Finished [])\<rparr>"
            using bad by (simp add: w4_def step_AwaitSend [OF pc3])
          then show ?thesis
            using sent s3 s2 keep by (simp add: all failure_log_def)
        next
          case unsent
          have pc3: "calls w3 c = Finished []"
            using unsent(1) s3 by simp
          have "w4 = w3"
            using pc3 by (simp add: w4_def stay)
          then show ?thesis
            using unsent s3 s2 keep by (simp add: all failure_log_def)
        qed
      qed
    qed
  qed
qed

lemma go_step_NotCalled:
  "gcalls w c = GNotCalled \<Longrightarrow>
   GetOrCreateSession_step uuid c sessionInfo what w =
     (let key = (case sessionInfo of None \<Rightarrow> ''default'' | Some k \<Rightarrow> k) in
      case sessions w key of
        Some sessionID \<Rightarrow> w\<lparr>gcalls := (gcalls w)(c := GReturned sessionID None)\<rparr>
      | None \<Rightarrow> w\<lparr>gcalls := (gcalls w)(c := GCreating key)\<rparr>)"
  by (simp add: GetOrCreateSession_step_def)

lemma go_step_Creating:
  "gcalls w c = GCreating key \<Longrightarrow>
   GetOrCreateSession_step uuid c sessionInfo what w =
     (case createSession uuid what w of
        ((sessionID, Some err), w1) \<Rightarrow>
          w1\<lparr>gcalls := (gcalls w1)(c := GReturned [] (Some err))\<rparr>
      | ((sessionID, None), w1) \<Rightarrow>
          w1\<lparr>gcalls := (gcalls w1)(c := GStoring key sessionID)\<rparr>)"
  by (simp add: GetOrCreateSession_step_def)

lemma go_step_Storing:
  "gcalls w c = GStoring key sessionID \<Longrightarrow>
   GetOrCreateSession_step uuid c sessionInfo what w =
     w\<lparr>sessions := (sessions w)(key \<mapsto> sessionID),
       gcalls := (gcalls w)(c := GReturned sessionID None)\<rparr>"
  by (simp add: GetOrCreateSession_step_def)

lemma go_step_Returned:
  "gcalls w c = GReturned sessionID err \<Longrightarrow>
   GetOrCreateSession_step uuid c sessionInfo what w = w"
  by (simp add: GetOrCreateSession_step_def)

lemma GetOrCreateSession_miss:
  assumes nc: "gcalls w c = GNotCalled" and miss: "sessions w key = None"
  shows "GetOrCreateSession uuid c (Some key) what w =
     (case createSession uuid what w of
        ((sessionID, Some err), w1) \<Rightarrow>
          w1\<lparr>gcalls := (gcalls w1)(c := GReturned [] (Some err))\<rparr>
      | ((sessionID, None), w1) \<Rightarrow>
          w1\<lparr>sessions := (sessions w1)(key \<mapsto> sessionID),
             gcalls := (gcalls w1)(c := GReturned sessionID None)\<rparr>)"
proof -
  define w1 where "w1 = GetOrCreateSession_step uuid c (Some key) what w"
  have w1: "w1 = w\<lparr>gcalls := (gcalls w)(c := GCreating key)\<rparr>"
    using miss by (simp add: w1_def go_step_NotCalled [OF nc])
  then have pc1: "gcalls w1 c = GCreating key" by simp
  have cs: "createSession uuid what w1 =
      (fst (createSession uuid what w),
       (snd (createSession uuid what w))\<lparr>gcalls := (gcalls w)(c := GCreating key)\<rparr>)"
    by (cases what) (simp_all add: createSession_def Errorf_def w1 Let_def)
  have gc: "gcalls (snd (createSession uuid what w)) = gcalls w"
    by (cases what) (simp_all add: createSession_def Errorf_def Let_def)
  show ?thesis
  proof (cases "createSession uuid what w")
    case (Pair r wc)
    obtain sid e where r: "r = (sid, e)" by (cases r)
    show ?thesis
    proof (cases e)
      case None
      have w2: "GetOrCreateSession_step uuid c (Some key) what w1 =
          wc\<lparr>gcalls := (gcalls w)(c := GStoring key sid)\<rparr>"
        using Pair r None cs by (simp add: go_step_Creating [OF pc1])
      have pc2: "gcalls (wc\<lparr>gcalls := (gcalls w)(c := GStoring key sid)\<rparr>) c = GStoring key sid"
        by simp
      show ?thesis
        using Pair r None gc
        by (simp add: GetOrCreateSession_def w1_def [symmetric] w2 go_step_Storing [OF pc2])
    next
      case (Some err)
      have w2: "GetOrCreateSession_step uuid c (Some key) what w1 =
          wc\<lparr>gcalls := (gcalls w)(c := GReturned [] (Some err))\<rparr>"
        using Pair r Some cs by (simp add: go_step_Creating [OF pc1])
      have pc2: "gcalls (wc\<lparr>gcalls := (gcalls w)(c := GReturned [] (Some err))\<rparr>) c =
          GReturned [] (Some err)"
        by simp
      show ?thesis
        using Pair r Some gc
        by (simp add: GetOrCreateSession_def w1_def [symmetric] w2 go_step_Returned [OF pc2])
    qed
  qed
qed


text \<open>
  Claim C4, as the code has it. On a key not yet cached (no entry under it, and not the
  name of a property of \<^verbatim>\<open>Object.prototype\<close>) and without the dummy flag: in the TypeScript
  SDK a failed delivery (a transport error, or a status outside 200..299) makes
  \<^verbatim>\<open>startSession\<close> log a warning, leave the cache as it was and return the empty string. In
  the Go SDK a status other than 200 and 201 is logged as a warning and the locally
  generated identifier is cached and returned, whereas an error of the transport is logged
  as an error and returned as an error, with nothing cached.
\<close>

theorem session_creation_failure:
  "(calls w c = NotCalled \<and> sessionIds (mgr w) key = None \<and> key \<notin> set object_prototype_names
      \<and> \<not> post_ok (response inp) \<longrightarrow>
      calls (startSession P c key False inp w) c = Finished []
      \<and> sessionIds (mgr (startSession P c key False inp w)) = sessionIds (mgr w)
      \<and> last (logged (startSession P c key False inp w)) = Warning ''Failed to start session'')
   \<and> (gcalls g c = GNotCalled \<and> sessions g key = None \<and> code \<noteq> 200 \<and> code \<noteq> 201 \<longrightarrow>
      gcalls (GetOrCreateSession uuid c (Some key) (Responded code) g) c =
        GReturned (uuid (ggenerated g)) None
      \<and> sessions (GetOrCreateSession uuid c (Some key) (Responded code) g) key =
        Some (uuid (ggenerated g))
      \<and> glogged (GetOrCreateSession uuid c (Some key) (Responded code) g) =
        glogged g @ [Warning ''Session creation failed with status''])
   \<and> (gcalls g c = GNotCalled \<and> sessions g key = None \<longrightarrow>
      gcalls (GetOrCreateSession uuid c (Some key) DoFails g) c = GReturned [] (Some ErrDo)
      \<and> sessions (GetOrCreateSession uuid c (Some key) DoFails g) = sessions g
      \<and> glogged (GetOrCreateSession uuid c (Some key) DoFails g) =
        glogged g @ [Error ''failed to create session''])"
proof (intro conjI impI)
  assume a: "calls w c = NotCalled \<and> sessionIds (mgr w) key = None
      \<and> key \<notin> set object_prototype_names \<and> \<not> post_ok (response inp)"
  then have "lookup_session (sessionIds (mgr w)) key = Absent"
    by (simp add: lookup_session_Absent)
  with a have r: "calls (startSession P c key False inp w) c = Finished []
       \<and> sessionIds (mgr (startSession P c key False inp w)) = sessionIds (mgr w)
       \<and> last (logged (startSession P c key False inp w)) = Warning ''Failed to start session''"
    using startSession_failure_ts [of w c key inp P] by blast
  from r show "calls (startSession P c key False inp w) c = Finished []" by blast
  from r show "sessionIds (mgr (startSession P c key False inp w)) = sessionIds (mgr w)" by blast
  from r show "last (logged (startSession P c key False inp w)) =
      Warning ''Failed to start session''" by blast
next
  assume a: "gcalls g c = GNotCalled \<and> sessions g key = None \<and> code \<noteq> 200 \<and> code \<noteq> 201"
  then have e: "GetOrCreateSession uuid c (Some key) (Responded code) g =
     (case createSession uuid (Responded code) g of
        ((sessionID, Some err), w1) \<Rightarrow>
          w1\<lparr>gcalls := (gcalls w1)(c := GReturned [] (Some err))\<rparr>
      | ((sessionID, None), w1) \<Rightarrow>
          w1\<lparr>sessions := (sessions w1)(key \<mapsto> sessionID),
             gcalls := (gcalls w1)(c := GReturned sessionID None)\<rparr>)"
    using GetOrCreateSession_miss by blast
  show "gcalls (GetOrCreateSession uuid c (Some key) (Responded code) g) c =
        GReturned (uuid (ggenerated g)) None"
    using a by (simp add: e createSession_def Let_def)
  show "sessions (GetOrCreateSession uuid c (Some key) (Responded code) g) key =
        Some (uuid (ggenerated g))"
    using a by (simp add: e createSession_def Let_def)
  show "glogged (GetOrCreateSession uuid c (Some key) (Responded code) g) =
        glogged g @ [Warning ''Session creation failed with status'']"
    using a by (simp add: e createSession_def Let_def)
next
  assume a: "gcalls g c = GNotCalled \<and> sessions g key = None"
  then have e: "GetOrCreateSession uuid c (Some key) DoFails g =
     (case createSession uuid DoFails g of
        ((sessionID, Some err), w1) \<Rightarrow>
          w1\<lparr>gcalls := (gcalls w1)(c := GReturned [] (Some err))\<rparr>
      | ((sessionID, None), w1) \<Rightarrow>
          w1\<lparr>sessions := (sessions w1)(key \<mapsto> sessionID),
             gcalls := (gcalls w1)(c := GReturned sessionID None)\<rparr>)"
    using GetOrCreateSession_miss by blast
  show "gcalls (GetOrCreateSession uuid c (Some key) DoFails g) c = GReturned [] (Some ErrDo)"
    by (simp add: e createSession_def Errorf_def Let_def)
  show "sessions (GetOrCreateSession uuid c (Some key) DoFails g) = sessions g"
    by (simp add: e createSession_def Errorf_def Let_def)
  show "glogged (GetOrCreateSession uuid c (Some key) DoFails g) =
        glogged g @ [Error ''failed to create session'']"
    by (simp add: e createSession_def Errorf_def Let_def)
qed

theorem session_creation_failure_witness:
  "calls initial_world 0 = NotCalled \<and> sessionIds (mgr initial_world) ''k'' = None
   \<and> ''k'' \<notin> set object_prototype_names
   \<and> \<not> post_ok (response answer_500)
   \<and> calls (startSession example_params 0 ''k'' False answer_500 initial_world) 0 = Finished []
   \<and> gcalls go_initial_world 0 = GNotCalled \<and> sessions go_initial_world ''k'' = None
   \<and> gcalls (GetOrCreateSession example_uuid 0 (Some ''k'') (Responded 500) go_initial_world) 0 =
        GReturned ''uuid-A'' None
   \<and> sessions (GetOrCreateSession example_uuid 0 (Some ''k'') (Responded 500) go_initial_world) ''k'' =
        Some ''uuid-A''
   \<and> gcalls (GetOrCreateSession example_uuid 0 (Some ''k'') DoFails go_initial_world) 0 =
        GReturned [] (Some ErrDo)
   \<and> glogged (GetOrCreateSession example_uuid 0 (Some ''k'') DoFails go_initial_world) =
        [Error ''failed to create session'']"
  using session_creation_failure [of initial_world 0 "''k''" answer_500 example_params
      go_initial_world 500 example_uuid]
  by (simp add: initial_world_def go_initial_world_def answer_500_def example_uuid_def
      object_prototype_names_def)

theorem startSession_failure_counterexample:
  "calls (startSession example_params 0 ''k'' False answer_down initial_world) 0 = Finished []
   \<and> sessionIds (mgr (startSession example_params 0 ''k'' False answer_down initial_world)) ''k''
       = None
   \<and> map session_id (posted (startSession example_params 0 ''k'' False answer_down initial_world))
       = [''uuid-A'']"
  by (simp add: startSession_def startSession_step_def example_params_def answer_down_def
      initial_world_def identifyUser_begin_def identifyUser_finish_def post_session_def
      getSessionData_def fresh_SessionData_def fill_SessionData_def serialisable_def
      failure_log_def lookup_session_def object_prototype_names_def client_config_text_def
      Let_def)

section \<open>The instrumentation wrappers\<close>

lemma wrappedHandler_threw:
  assumes "\<not> nullish request" and "\<not> unstringable (request_toolName request)"
    and "originalHandler request = Threw error" and "error_message env error = Some m"
  shows "wrappedHandler env identify_set originalHandler elapsed record_rejects sm request =
           (if identify_set then sm\<lparr>requestContext := request, cachedUser := JUndefined\<rparr> else sm,
            HandlerCalled request # Logged (Warning ''Error calling tool'') #
              record_finally record_rejects (recorded_call env request elapsed False (JStr m)),
            Threw error)"
  using assms by (simp add: wrappedHandler_def Let_def)

lemma wrappedHandler_returned:
  assumes "\<not> nullish request" and "\<not> unstringable (request_toolName request)"
    and "originalHandler request = Returned v"
    and "fst (isMcpErrorResponse env v) \<longrightarrow> \<not> unstringable (snd (isMcpErrorResponse env v))"
  shows "wrappedHandler env identify_set originalHandler elapsed record_rejects sm request =
           (if identify_set then sm\<lparr>requestContext := request, cachedUser := JUndefined\<rparr> else sm,
            HandlerCalled request #
              (if fst (isMcpErrorResponse env v) then [Logged (Warning ''Tool returned error'')]
               else []) @
              record_finally record_rejects
                (recorded_call env request elapsed (\<not> fst (isMcpErrorResponse env v))
                   (if fst (isMcpErrorResponse env v) then snd (isMcpErrorResponse env v) else v)),
            Returned v)"
  using assms
  by (cases "isMcpErrorResponse env v") (simp add: wrappedHandler_def Let_def)

text \<open>
  What the installed handler does where a conversion to a string throws: nothing is
  recorded for a tool name that cannot be converted, whatever the original handler does;
  the result \<^verbatim>\<open>null\<close> is recorded for a thrown value that cannot be converted. In both
  cases the caller gets a \<^verbatim>\<open>TypeError\<close> of the wrapper, not the outcome of the original
  handler.
\<close>

lemma wrappedHandler_name_not_convertible:
  assumes "\<not> nullish request" and "unstringable (request_toolName request)"
  shows "wrappedHandler env identify_set originalHandler elapsed record_rejects sm request =
           (if identify_set then sm\<lparr>requestContext := request, cachedUser := JUndefined\<rparr> else sm,
            [HandlerCalled request], Threw type_error)"
  using assms by (simp add: wrappedHandler_def Let_def)

lemma wrappedHandler_error_not_convertible:
  assumes "\<not> nullish request" and "\<not> unstringable (request_toolName request)"
    and "originalHandler request = Threw error" and "error_message env error = None"
  shows "wrappedHandler env identify_set originalHandler elapsed record_rejects sm request =
           (if identify_set then sm\<lparr>requestContext := request, cachedUser := JUndefined\<rparr> else sm,
            HandlerCalled request #
              record_finally record_rejects (recorded_call env request elapsed False JNull),
            Threw type_error)"
  using assms by (simp add: wrappedHandler_def Let_def)

lemma root_branch_None: "root_branch env v = None \<longleftrightarrow> \<not> flagged_on_root v"
  by (auto simp: root_branch_def flagged_on_root_def flagged_directly_def Let_def
      split: option.splits list.splits text_scan.splits)

lemma root_branch_Inr: "root_branch env v = Some (Inr r) \<Longrightarrow> fst r"
  by (auto simp: root_branch_def Let_def
      split: if_splits option.splits list.splits text_scan.splits)

lemma direct_branch_flagged:
  assumes "flagged_directly v"
  shows "\<exists>x. direct_branch env v = Some x \<and> (\<forall>r. x = Inr r \<longrightarrow> fst r)"
proof -
  have f: "hasattr v ''isError'' \<and> truthy (js_get v ''isError'')"
    using assms by (simp add: flagged_directly_def)
  show ?thesis
  proof (cases "if hasattr v ''content'' then js_get v ''content'' else JUndefined")
    case (JArr items)
    show ?thesis
    proof (cases "content_text env items")
      case NoText
      show ?thesis
      proof (cases items)
        case Nil
        then show ?thesis using f JArr NoText by (simp add: direct_branch_def)
      next
        case (Cons first rest)
        show ?thesis
        proof (cases "stringify env first")
          case None
          then show ?thesis
            using f JArr NoText Cons by (cases first) (simp_all add: direct_branch_def)
        next
          case (Some j)
          then show ?thesis
            using f JArr NoText Cons by (cases first) (simp_all add: direct_branch_def)
        qed
      qed
    next
      case (FoundText m)
      then show ?thesis using f JArr by (simp add: direct_branch_def)
    next
      case ScanThrows
      then show ?thesis using f JArr by (simp add: direct_branch_def)
    qed
  qed (simp_all add: direct_branch_def f)
qed

lemma direct_branch_None: "direct_branch env v = None \<longleftrightarrow> \<not> flagged_directly v"
proof
  assume "direct_branch env v = None"
  then show "\<not> flagged_directly v"
    using direct_branch_flagged [of v env] by auto
next
  assume "\<not> flagged_directly v"
  then have "\<not> (hasattr v ''isError'' \<and> truthy (js_get v ''isError''))"
    by (simp add: flagged_directly_def)
  then show "direct_branch env v = None"
    unfolding direct_branch_def by (rule if_not_P)
qed

lemma direct_branch_Inr:
  assumes "direct_branch env v = Some (Inr r)"
  shows "fst r"
proof -
  have "flagged_directly v"
    using assms direct_branch_None [of env v] by auto
  then obtain x where x: "direct_branch env v = Some x" "\<forall>r. x = Inr r \<longrightarrow> fst r"
    using direct_branch_flagged [of v env] by blast
  from x(1) assms have "x = Inr r" by simp
  with x(2) show ?thesis by blast
qed

lemma flagged_classified:
  assumes "flagged_on_root v \<or> flagged_directly v" and "isMcpErrorResponse_try env v = Inr r"
  shows "fst r"
proof (cases "root_branch env v")
  case (Some x)
  then show ?thesis
    using assms(2) root_branch_Inr [of env v r] by (simp add: isMcpErrorResponse_try_def)
next
  case None
  then have nr: "\<not> flagged_on_root v" by (simp add: root_branch_None)
  then have "flagged_directly v" using assms(1) by blast
  then obtain x where d: "direct_branch env v = Some x"
    using direct_branch_None [of env v] by (cases "direct_branch env v") auto
  then show ?thesis
    using assms(2) None direct_branch_Inr [of env v r] by (simp add: isMcpErrorResponse_try_def)
qed

lemma unflagged_not_classified:
  assumes "\<not> flagged_on_root v" and "\<not> flagged_directly v"
  shows "isMcpErrorResponse env v = (case v of JErr m \<Rightarrow> (True, JStr m) | other \<Rightarrow> (False, JStr []))"
proof -
  have "root_branch env v = None" "direct_branch env v = None"
    using assms by (simp_all add: root_branch_None direct_branch_None)
  then show ?thesis
    by (simp add: isMcpErrorResponse_def isMcpErrorResponse_try_def split: jsval.splits)
qed

lemma direct_text_message:
  assumes "flagged_directly v" and "\<not> hasattr v ''root''" and "hasattr v ''content''"
    and "js_get v ''content'' = JArr items" and "content_text env items = FoundText t"
  shows "isMcpErrorResponse env v = (True, JStr t)"
proof -
  have "root_branch env v = None"
    using assms(2) by (simp add: root_branch_def)
  moreover have "direct_branch env v = Some (Inr (True, JStr t))"
    using assms by (simp add: direct_branch_def flagged_directly_def)
  ultimately show ?thesis
    by (simp add: isMcpErrorResponse_def isMcpErrorResponse_try_def)
qed

lemma root_text_message:
  assumes "flagged_on_root v" and "hasattr (js_get v ''root'') ''content''"
    and "js_get (js_get v ''root'') ''content'' = JArr items"
    and "content_text env items = FoundText t"
  shows "isMcpErrorResponse env v = (True, JStr t)"
proof -
  have "root_branch env v = Some (Inr (True, JStr t))"
    using assms by (simp add: root_branch_def flagged_on_root_def flagged_directly_def Let_def)
  then show ?thesis
    by (simp add: isMcpErrorResponse_def isMcpErrorResponse_try_def)
qed

lemma analytics_recordEvent_payload:
  "delivered_payload (snd (analytics_recordEvent ini env config orgId sid ok call)) = Some e \<Longrightarrow>
   success e = call_success call
   \<and> result e = serializeResult env (if disableOutput config then JNull else call_result call)"
  using recordEvent_payload [of env config orgId sid ok "call_type call" "call_name call"
      "call_args call" "call_latency call" "call_success call" "call_result call" e]
  by (simp add: analytics_recordEvent_def split: if_splits)

text \<open>
  Claim C2, as the code has it. In the TypeScript SDK, when the original handler of an
  intercepted tool call throws an \<^verbatim>\<open>Error\<close>, or a value that \<^verbatim>\<open>String\<close> converts, and the
  tool name of the request can be converted to a string, the installed handler calls
  \<^verbatim>\<open>recordEvent\<close> with \<^verbatim>\<open>success = false\<close> and the error's message as the result before its
  own outcome reaches the caller, and that outcome is the very value the original handler
  threw; every payload the pipeline builds from that call has \<^verbatim>\<open>success = false\<close> and,
  unless output is disabled, the message as its result. In the Go SDK, when the handler
  returns an error, the callback is called once with \<^verbatim>\<open>success = false\<close> and with the
  handler's result (not the error's message), and the wrapper returns the handler's result
  and error unchanged.
\<close>

theorem failing_call_recorded_then_rethrown:
  "(\<not> nullish request \<and> \<not> unstringable (request_toolName request)
      \<and> originalHandler request = Threw error \<and> error_message env error = Some m \<longrightarrow>
      snd (snd (wrappedHandler env identify_set originalHandler elapsed rej sm request)) = Threw error
      \<and> fst (snd (wrappedHandler env identify_set originalHandler elapsed rej sm request)) =
          HandlerCalled request # Logged (Warning ''Error calling tool'') #
          record_finally rej (recorded_call env request elapsed False (JStr m))
      \<and> (\<forall>e. delivered_payload
               (snd (analytics_recordEvent True env config orgId sid ok
                  (recorded_call env request elapsed False (JStr m))))
               = Some e \<longrightarrow>
             success e = False \<and> (\<not> disableOutput config \<longrightarrow> result e = JStr m)))
   \<and> (handler arguments = GoReturns res (Some err) \<longrightarrow>
      WrapToolHandler toolName handler execTime arguments =
        ([\<lparr>cb_toolName = toolName, cb_arguments = arguments, cb_execTime = execTime,
           cb_success = False, cb_result = res\<rparr>],
         GoReturns res (Some err)))"
proof (intro conjI impI allI)
  assume a: "\<not> nullish request \<and> \<not> unstringable (request_toolName request)
      \<and> originalHandler request = Threw error \<and> error_message env error = Some m"
  then show "snd (snd (wrappedHandler env identify_set originalHandler elapsed rej sm request)) =
      Threw error"
    by (simp add: wrappedHandler_threw)
  from a show "fst (snd (wrappedHandler env identify_set originalHandler elapsed rej sm request)) =
          HandlerCalled request # Logged (Warning ''Error calling tool'') #
          record_finally rej (recorded_call env request elapsed False (JStr m))"
    by (simp add: wrappedHandler_threw)
next
  fix e
  assume "delivered_payload
               (snd (analytics_recordEvent True env config orgId sid ok
                  (recorded_call env request elapsed False (JStr m))))
               = Some e"
  then show "success e = False"
    using analytics_recordEvent_payload by (fastforce simp: recorded_call_def)
next
  fix e
  assume "delivered_payload
               (snd (analytics_recordEvent True env config orgId sid ok
                  (recorded_call env request elapsed False (JStr m))))
               = Some e"
    and "\<not> disableOutput config"
  then show "result e = JStr m"
    using analytics_recordEvent_payload [of True env config orgId sid ok
        "recorded_call env request elapsed False (JStr m)" e]
    by (simp add: recorded_call_def serializeResult_def)
next
  assume "handler arguments = GoReturns res (Some err)"
  then show "WrapToolHandler toolName handler execTime arguments =
        ([\<lparr>cb_toolName = toolName, cb_arguments = arguments, cb_execTime = execTime,
           cb_success = False, cb_result = res\<rparr>],
         GoReturns res (Some err))"
    by (simp add: WrapToolHandler_def)
qed

theorem failing_call_recorded_then_rethrown_witness:
  "\<not> nullish org_request \<and> \<not> unstringable (request_toolName org_request)
   \<and> throwing_handler org_request = Threw (JErr ''boom'')
   \<and> error_message example_env (JErr ''boom'') = Some ''boom''
   \<and> snd (snd (wrappedHandler example_env False throwing_handler 3 False plain_manager org_request))
       = Threw (JErr ''boom'')
   \<and> fst (snd (wrappedHandler example_env False throwing_handler 3 False plain_manager org_request))
       = [HandlerCalled org_request, Logged (Warning ''Error calling tool''),
          RecordEventCalled
            \<lparr>call_type = ''tool'', call_name = ''search'',
             call_args = JObj [(''org_id'', JStr ''acme''), (''q'', JStr ''x'')],
             call_latency = 3, call_success = False, call_result = JStr ''boom''\<rparr>]
   \<and> failing_handler 0 = GoReturns None (Some ''boom'')
   \<and> WrapToolHandler ''echo'' failing_handler 12 (0::nat) =
        ([\<lparr>cb_toolName = ''echo'', cb_arguments = 0, cb_execTime = 12, cb_success = False,
           cb_result = None\<rparr>],
         GoReturns None (Some ''boom''))"
  using failing_call_recorded_then_rethrown [of org_request throwing_handler "JErr ''boom''"
      example_env "''boom''" False 3 False plain_manager private_config "''org''" "''sid''" True
      failing_handler "0::nat" None "''boom''" "''echo''" 12]
  by (simp add: org_request_def throwing_handler_def failing_handler_def recorded_call_def
      record_finally_def example_env_def request_toolName_def request_arguments_def
      js_get_opt_def)

theorem go_error_event_counterexample:
  "WrapToolHandler ''echo'' failing_handler 12 (0::nat) =
     ([\<lparr>cb_toolName = ''echo'', cb_arguments = 0, cb_execTime = 12, cb_success = False,
        cb_result = None\<rparr>],
      GoReturns None (Some ''boom''))"
  by (simp add: WrapToolHandler_def failing_handler_def)

text \<open>
  Claim C3, as the code has it. When the tool name of the request can be converted to a
  string and the original handler of an intercepted tool call returns normally, the
  installed handler returns exactly that value, provided the message extracted from a
  value classified as an error can be converted to a string as well. The recorded call
  has \<^verbatim>\<open>success = false\<close> and the extracted message as its result exactly when
  \<^verbatim>\<open>isMcpErrorResponse\<close> classifies the value as an error, and otherwise \<^verbatim>\<open>success = true\<close>
  and the value itself. A value with a truthy \<^verbatim>\<open>isError\<close>, on itself or on its root, is so
  classified whenever the body of the check runs to its end; when the body throws (the
  \<^verbatim>\<open>catch\<close> of \<^verbatim>\<open>isMcpErrorResponse\<close> then answers \<^verbatim>\<open>false\<close>), the value is not classified. A
  value without the flag is classified only if it is an \<^verbatim>\<open>Error\<close>. For a result in the
  protocol's shape (the flag on a value without \<^verbatim>\<open>root\<close>, or on the root, and a content
  array in which the scan finds a text) the check answers that text.
\<close>

theorem returned_value_is_unchanged:
  "(\<not> nullish request \<and> \<not> unstringable (request_toolName request)
      \<and> originalHandler request = Returned v
      \<and> (fst (isMcpErrorResponse env v) \<longrightarrow> \<not> unstringable (snd (isMcpErrorResponse env v))) \<longrightarrow>
      wrappedHandler env identify_set originalHandler elapsed rej sm request =
        (if identify_set then sm\<lparr>requestContext := request, cachedUser := JUndefined\<rparr> else sm,
         HandlerCalled request #
           (if fst (isMcpErrorResponse env v) then [Logged (Warning ''Tool returned error'')]
            else []) @
           record_finally rej
             (recorded_call env request elapsed (\<not> fst (isMcpErrorResponse env v))
                (if fst (isMcpErrorResponse env v) then snd (isMcpErrorResponse env v) else v)),
         Returned v))
   \<and> ((flagged_on_root v1 \<or> flagged_directly v1) \<and> isMcpErrorResponse_try env v1 = Inr r \<longrightarrow>
        fst r \<and> isMcpErrorResponse env v1 = r)
   \<and> (isMcpErrorResponse_try env v2 = Inl msg \<longrightarrow>
        isMcpErrorResponse env v2 = (False, JStr (''Error checking response: '' @ msg)))
   \<and> (\<not> flagged_on_root v3 \<and> \<not> flagged_directly v3 \<longrightarrow>
        isMcpErrorResponse env v3 =
          (case v3 of JErr m \<Rightarrow> (True, JStr m) | other \<Rightarrow> (False, JStr [])))
   \<and> (flagged_directly v4 \<and> \<not> hasattr v4 ''root'' \<and> hasattr v4 ''content''
        \<and> js_get v4 ''content'' = JArr items \<and> content_text env items = FoundText t \<longrightarrow>
        isMcpErrorResponse env v4 = (True, JStr t))
   \<and> (flagged_on_root v5 \<and> hasattr (js_get v5 ''root'') ''content''
        \<and> js_get (js_get v5 ''root'') ''content'' = JArr items5
        \<and> content_text env items5 = FoundText t5 \<longrightarrow>
        isMcpErrorResponse env v5 = (True, JStr t5))"
proof (intro conjI impI)
  assume "\<not> nullish request \<and> \<not> unstringable (request_toolName request)
      \<and> originalHandler request = Returned v
      \<and> (fst (isMcpErrorResponse env v) \<longrightarrow> \<not> unstringable (snd (isMcpErrorResponse env v)))"
  then show "wrappedHandler env identify_set originalHandler elapsed rej sm request =
        (if identify_set then sm\<lparr>requestContext := request, cachedUser := JUndefined\<rparr> else sm,
         HandlerCalled request #
           (if fst (isMcpErrorResponse env v) then [Logged (Warning ''Tool returned error'')]
            else []) @
           record_finally rej
             (recorded_call env request elapsed (\<not> fst (isMcpErrorResponse env v))
                (if fst (isMcpErrorResponse env v) then snd (isMcpErrorResponse env v) else v)),
         Returned v)"
    using wrappedHandler_returned [of request originalHandler v env identify_set elapsed rej sm]
    by blast
next
  assume a: "(flagged_on_root v1 \<or> flagged_directly v1) \<and> isMcpErrorResponse_try env v1 = Inr r"
  then show "fst r"
    using flagged_classified [of v1 env r] by blast
  from a show "isMcpErrorResponse env v1 = r"
    by (simp add: isMcpErrorResponse_def)
next
  assume "isMcpErrorResponse_try env v2 = Inl msg"
  then show "isMcpErrorResponse env v2 = (False, JStr (''Error checking response: '' @ msg))"
    by (simp add: isMcpErrorResponse_def)
next
  assume "\<not> flagged_on_root v3 \<and> \<not> flagged_directly v3"
  then show "isMcpErrorResponse env v3 =
          (case v3 of JErr m \<Rightarrow> (True, JStr m) | other \<Rightarrow> (False, JStr []))"
    using unflagged_not_classified [of v3 env] by blast
next
  assume "flagged_directly v4 \<and> \<not> hasattr v4 ''root'' \<and> hasattr v4 ''content''
        \<and> js_get v4 ''content'' = JArr items \<and> content_text env items = FoundText t"
  then show "isMcpErrorResponse env v4 = (True, JStr t)"
    using direct_text_message [of v4 items env t] by blast
next
  assume "flagged_on_root v5 \<and> hasattr (js_get v5 ''root'') ''content''
        \<and> js_get (js_get v5 ''root'') ''content'' = JArr items5
        \<and> content_text env items5 = FoundText t5"
  then show "isMcpErrorResponse env v5 = (True, JStr t5)"
    using root_text_message [of v5 items5 env t5] by blast
qed

lemma flagged_result_message:
  "isMcpErrorResponse example_env flagged_result = (True, JStr ''not found'')"
  by (simp add: isMcpErrorResponse_def isMcpErrorResponse_try_def root_branch_def
      direct_branch_def flagged_result_def hasattr_def example_env_def scan_String_def
      js_String_def)

lemma odd_result_throws:
  "isMcpErrorResponse_try example_env odd_result = Inl not_iterable"
  by (simp add: isMcpErrorResponse_try_def root_branch_def odd_result_def hasattr_def Let_def)

theorem returned_value_is_unchanged_witness:
  "\<not> nullish org_request \<and> \<not> unstringable (request_toolName org_request)
   \<and> flagged_handler org_request = Returned flagged_result
   \<and> \<not> unstringable (snd (isMcpErrorResponse example_env flagged_result))
   \<and> wrappedHandler example_env False flagged_handler 3 False plain_manager org_request =
       (plain_manager,
        [HandlerCalled org_request, Logged (Warning ''Tool returned error''),
         RecordEventCalled
           \<lparr>call_type = ''tool'', call_name = ''search'',
            call_args = JObj [(''org_id'', JStr ''acme''), (''q'', JStr ''x'')],
            call_latency = 3, call_success = False, call_result = JStr ''not found''\<rparr>],
        Returned flagged_result)
   \<and> flagged_directly flagged_result
   \<and> isMcpErrorResponse_try example_env flagged_result = Inr (True, JStr ''not found'')
   \<and> isMcpErrorResponse_try example_env odd_result = Inl not_iterable
   \<and> isMcpErrorResponse example_env odd_result =
        (False, JStr (''Error checking response: '' @ not_iterable))
   \<and> \<not> flagged_on_root (JStr ''done'') \<and> \<not> flagged_directly (JStr ''done'')
   \<and> isMcpErrorResponse example_env (JStr ''done'') = (False, JStr [])
   \<and> \<not> hasattr flagged_result ''root'' \<and> hasattr flagged_result ''content''
   \<and> flagged_on_root root_flagged_result
   \<and> isMcpErrorResponse example_env root_flagged_result = (True, JStr ''not found'')"
proof -
  let ?items = "[JObj [(''type'', JStr ''text''), (''text'', JStr ''not found'')]]"
  have h1: "\<not> nullish org_request \<and> \<not> unstringable (request_toolName org_request)
      \<and> flagged_handler org_request = Returned flagged_result"
    by (simp add: org_request_def flagged_handler_def request_toolName_def js_get_opt_def)
  have h2: "flagged_directly flagged_result \<and> \<not> hasattr flagged_result ''root''
      \<and> hasattr flagged_result ''content'' \<and> js_get flagged_result ''content'' = JArr ?items"
    by (simp add: flagged_directly_def hasattr_def flagged_result_def)
  have h3: "content_text example_env ?items = FoundText ''not found''"
    by (simp add: hasattr_def scan_String_def js_String_def example_env_def)
  have h4: "isMcpErrorResponse_try example_env flagged_result = Inr (True, JStr ''not found'')"
    by (simp add: isMcpErrorResponse_try_def root_branch_def direct_branch_def
        flagged_result_def hasattr_def example_env_def scan_String_def js_String_def)
  have h5: "\<not> flagged_on_root (JStr ''done'') \<and> \<not> flagged_directly (JStr ''done'')"
    by (simp add: flagged_on_root_def flagged_directly_def hasattr_def)
  have h6: "flagged_on_root root_flagged_result
      \<and> hasattr (js_get root_flagged_result ''root'') ''content''
      \<and> js_get (js_get root_flagged_result ''root'') ''content'' = JArr ?items"
    by (simp add: flagged_on_root_def flagged_directly_def hasattr_def root_flagged_result_def
        flagged_result_def)
  have call: "recorded_call example_env org_request 3 False (JStr ''not found'') =
        \<lparr>call_type = ''tool'', call_name = ''search'',
         call_args = JObj [(''org_id'', JStr ''acme''), (''q'', JStr ''x'')],
         call_latency = 3, call_success = False, call_result = JStr ''not found''\<rparr>"
    by (simp add: recorded_call_def request_toolName_def request_arguments_def js_get_opt_def
        org_request_def example_env_def)
  show ?thesis
    using returned_value_is_unchanged [where request = org_request
        and originalHandler = flagged_handler and v = flagged_result and env = example_env
        and ?v1.0 = flagged_result and r = "(True, JStr ''not found'')"
        and ?v2.0 = odd_result and msg = not_iterable and ?v3.0 = "JStr ''done''"
        and ?v4.0 = flagged_result and items = ?items and t = "''not found''"
        and ?v5.0 = root_flagged_result and ?items5.0 = ?items and ?t5.0 = "''not found''"
        and identify_set = False and elapsed = 3 and rej = False and sm = plain_manager]
      h1 h2 h3 h4 h5 h6
    by (simp add: flagged_result_message odd_result_throws call record_finally_def)
qed

theorem flagged_value_recorded_as_success_counterexample:
  "flagged_directly odd_result
   \<and> wrappedHandler example_env False odd_handler 3 False plain_manager org_request =
       (plain_manager,
        [HandlerCalled org_request,
         RecordEventCalled
           \<lparr>call_type = ''tool'', call_name = ''search'',
            call_args = JObj [(''org_id'', JStr ''acme''), (''q'', JStr ''x'')],
            call_latency = 3, call_success = True, call_result = odd_result\<rparr>],
        Returned odd_result)"
  by (simp add: wrappedHandler_def odd_handler_def odd_result_def org_request_def
      isMcpErrorResponse_def isMcpErrorResponse_try_def root_branch_def hasattr_def
      flagged_directly_def record_finally_def recorded_call_def request_toolName_def
      request_arguments_def js_get_opt_def example_env_def Let_def)

section \<open>Identities attached to sessions\<close>

lemma user_ok_simps [simp]: "user_ok JNull" "user_ok JUndefined"
  by (simp_all add: user_ok_def)
















text \<open>
  Where the code leaves the path described by claim C9. A thrown value that is no
  \<^verbatim>\<open>Error\<close> and cannot be converted to a string makes \<^verbatim>\<open>identifyUser\<close> itself throw. And a
  session-data object taken from the pool keeps the identity of its previous use: in the
  run below the second session is created after the identify function has answered
  \<^verbatim>\<open>null\<close>, and its record is posted with the identity of the first.
\<close>

lemma identifyUser_throws:
  "cachedUser sm = JUndefined \<Longrightarrow> f (requestContext sm) = Threw e \<Longrightarrow>
   error_message env e = None \<Longrightarrow>
   identifyUser env (Some f) sm = (sm, [], Threw type_error)"
  by (simp add: identifyUser_def identifyUser_begin_def identifyUser_finish_def)

lemma pooled_record_keeps_identity:
  "map (\<lambda>b. (session_id b, user_data b))
     (posted (run_events context_params two_creations initial_world)) =
   [(''uuid-A'', Some known_user), (''uuid-B'', Some known_user)]"
  by (simp add: two_creations_def context_params_def initial_world_def apply_event_def
      startSession_step_def identifyUser_begin_def identifyUser_finish_def
      identify_by_context_def known_user_def org_request_def post_session_def
      getSessionData_def fresh_SessionData_def fill_SessionData_def serialisable_def
      example_env_def example_uuid_def answer_ok_def returnSessionData_def lookup_session_def
      object_prototype_names_def client_config_text_def Let_def)





section \<open>Session creation is not single-flight\<close>









lemma go_overlapping_creates_twice:
  "gposted (go_run_schedule example_uuid ''k'' go_overlapping go_initial_world)
     = [''uuid-A'', ''uuid-B'']
   \<and> gcalls (go_run_schedule example_uuid ''k'' go_overlapping go_initial_world) 0
     = GReturned ''uuid-A'' None
   \<and> gcalls (go_run_schedule example_uuid ''k'' go_overlapping go_initial_world) 1
     = GReturned ''uuid-B'' None"
  by (simp add: go_overlapping_def go_initial_world_def GetOrCreateSession_step_def
      createSession_def example_uuid_def Let_def)




section \<open>Initialising and tracking twice\<close>

lemma overrideMcpServer_keeps_fields:
  "stored_server (fst (snd (overrideMcpServer a S server))) = stored_server a
   \<and> stored_config (fst (snd (overrideMcpServer a S server))) = stored_config a
   \<and> stored_orgId (fst (snd (overrideMcpServer a S server))) = stored_orgId a
   \<and> initialized (fst (snd (overrideMcpServer a S server))) = initialized a
   \<and> initialSessions (fst (snd (overrideMcpServer a S server))) = initialSessions a"
  by (simp add: overrideMcpServer_def Let_def split: option.splits)

lemma trackMcp_initialized:
  assumes "initialized a"
  shows "fst (trackMcp a S server orgId config) =
     (fst (snd (overrideMcpServer a S server)))
       \<lparr>initialSessions :=
          (if fst (overrideMcpServer a S server) then initialSessions a @ [server]
           else initialSessions a)\<rparr>"
proof -
  obtain b a2 S2 where o: "overrideMcpServer a S server = (b, a2, S2)"
    by (cases "overrideMcpServer a S server")
  have k: "initialSessions a2 = initialSessions a"
    using overrideMcpServer_keeps_fields [of a S server] o by simp
  show ?thesis
    using assms o k by (cases b; cases server) (simp_all add: trackMcp_def initialize_def)
qed

lemma overrideMcpServer_wraps:
  assumes "\<not> overrideApplied a"
    and "l = (case inner_server (S s) of Some i \<Rightarrow> i | None \<Rightarrow> s)"
    and "requestHandlers (S l) = Some hs" and "map_of hs ''tools/call'' = Some h"
  shows "overrideMcpServer a S (Some s) =
     (True, a\<lparr>overrideApplied := True\<rparr>, wrapToolCallHandler S l ''tools/call'' h)"
  using assms by (simp add: overrideMcpServer_def Let_def)

lemma overrideMcpServer_finds_nothing:
  assumes "\<not> overrideApplied a"
    and "l = (case inner_server (S s) of Some i \<Rightarrow> i | None \<Rightarrow> s)"
    and "case requestHandlers (S l) of None \<Rightarrow> True | Some hs \<Rightarrow> filter is_call_tool_key hs = []"
  shows "overrideMcpServer a S (Some s) = (False, a, S)"
proof (cases "requestHandlers (S l)")
  case None
  then show ?thesis
    using assms by (simp add: overrideMcpServer_def Let_def)
next
  case (Some hs)
  then have e: "filter is_call_tool_key hs = []"
    using assms(3) by simp
  have "map_of hs ''tools/call'' = None"
  proof (cases "map_of hs ''tools/call''")
    case None
    then show ?thesis .
  next
    case (Some h)
    then have "(''tools/call'', h) \<in> set hs"
      by (rule map_of_SomeD)
    moreover have "is_call_tool_key (''tools/call'', h)"
      by (simp add: is_call_tool_key_def)
    ultimately have "(''tools/call'', h) \<in> set (filter is_call_tool_key hs)"
      by simp
    then show ?thesis
      using e by simp
  qed
  then show ?thesis
    using assms(1,2) Some e by (simp add: overrideMcpServer_def Let_def)
qed

text \<open>
  Claim C10, as the code has it. Once \<^verbatim>\<open>initialize\<close> has succeeded, every later
  \<^verbatim>\<open>initialize\<close> call answers \<^verbatim>\<open>true\<close> without validating its arguments and changes nothing;
  every later \<^verbatim>\<open>trackMcp\<close> call leaves the stored server, organisation id and configuration
  as they are and the client initialised; and when the override has been applied already,
  a later \<^verbatim>\<open>trackMcp\<close> call changes no server at all: it only starts an initial session for
  the server it was given. When the override has not been applied yet, a later \<^verbatim>\<open>trackMcp\<close>
  call works on the server it is given (\<open>l\<close> is its low-level server): a \<^verbatim>\<open>tools/call\<close>
  handler not yet wrapped is replaced by the wrapper around it, the override is marked as
  applied and an initial session is started (for a handler already wrapped, the same
  without the replacement); when there are no request handlers, or none whose key contains
  \<^verbatim>\<open>CallTool\<close> or \<^verbatim>\<open>tools/call\<close>, the \<^verbatim>\<open>connect\<close> method of a server that has one is replaced by a
  wrapper, and so is its \<^verbatim>\<open>registerTool\<close> method if it has one, while a server without
  \<^verbatim>\<open>connect\<close> is left as it is; and for a \<^verbatim>\<open>null\<close> server nothing changes.
\<close>

theorem later_calls_keep_first_setup:
  "(initialized a \<longrightarrow> initialize a server orgId config = (True, a))
   \<and> (initialized a \<longrightarrow>
        stored_server (fst (trackMcp a S server orgId config)) = stored_server a
        \<and> stored_config (fst (trackMcp a S server orgId config)) = stored_config a
        \<and> stored_orgId (fst (trackMcp a S server orgId config)) = stored_orgId a
        \<and> initialized (fst (trackMcp a S server orgId config)))
   \<and> (initialized a \<and> overrideApplied a \<longrightarrow>
        trackMcp a S server orgId config
          = (a\<lparr>initialSessions := initialSessions a @ [server]\<rparr>, S))
   \<and> (initialized a \<and> \<not> overrideApplied a
        \<and> l = (case inner_server (S s) of Some i \<Rightarrow> i | None \<Rightarrow> s)
        \<and> requestHandlers (S l) = Some hs \<and> map_of hs ''tools/call'' = Some h \<longrightarrow>
        trackMcp a S (Some s) orgId config
          = (a\<lparr>overrideApplied := True, initialSessions := initialSessions a @ [Some s]\<rparr>,
             if agnostWrapped h then S
             else S(l := (S l)\<lparr>requestHandlers :=
                            Some (map_set ''tools/call'' (AgnostWrapped h) hs)\<rparr>)))
   \<and> (initialized a \<and> \<not> overrideApplied a
        \<and> l2 = (case inner_server (S s2) of Some i \<Rightarrow> i | None \<Rightarrow> s2)
        \<and> (case requestHandlers (S l2) of
              None \<Rightarrow> True | Some hs2 \<Rightarrow> filter is_call_tool_key hs2 = []) \<longrightarrow>
        trackMcp a S (Some s2) orgId config
          = (a, if hasConnect (S s2)
                then S(s2 := (S s2)\<lparr>connectWrappers := Suc (connectWrappers (S s2)),
                         registerToolWrappers :=
                           (if hasRegisterTool (S s2) then Suc (registerToolWrappers (S s2))
                            else registerToolWrappers (S s2))\<rparr>)
                else S))
   \<and> (initialized a \<and> \<not> overrideApplied a \<longrightarrow> trackMcp a S None orgId config = (a, S))"
proof (intro conjI impI)
  assume "initialized a"
  then show "initialize a server orgId config = (True, a)"
    by (simp add: initialize_def)
next
  assume i: "initialized a"
  show "stored_server (fst (trackMcp a S server orgId config)) = stored_server a"
    using overrideMcpServer_keeps_fields [of a S server] by (simp add: trackMcp_initialized [OF i])
  show "stored_config (fst (trackMcp a S server orgId config)) = stored_config a"
    using overrideMcpServer_keeps_fields [of a S server] by (simp add: trackMcp_initialized [OF i])
  show "stored_orgId (fst (trackMcp a S server orgId config)) = stored_orgId a"
    using overrideMcpServer_keeps_fields [of a S server] by (simp add: trackMcp_initialized [OF i])
  show "initialized (fst (trackMcp a S server orgId config))"
    using overrideMcpServer_keeps_fields [of a S server] i
    by (simp add: trackMcp_initialized [OF i])
next
  assume "initialized a \<and> overrideApplied a"
  then show "trackMcp a S server orgId config
          = (a\<lparr>initialSessions := initialSessions a @ [server]\<rparr>, S)"
    by (simp add: trackMcp_def initialize_def overrideMcpServer_def)
next
  assume a: "initialized a \<and> \<not> overrideApplied a
        \<and> l = (case inner_server (S s) of Some i \<Rightarrow> i | None \<Rightarrow> s)
        \<and> requestHandlers (S l) = Some hs \<and> map_of hs ''tools/call'' = Some h"
  then have o: "overrideMcpServer a S (Some s) =
     (True, a\<lparr>overrideApplied := True\<rparr>, wrapToolCallHandler S l ''tools/call'' h)"
    using overrideMcpServer_wraps [where a = a and l = l and S = S and s = s and hs = hs and h = h]
    by blast
  show "trackMcp a S (Some s) orgId config
          = (a\<lparr>overrideApplied := True, initialSessions := initialSessions a @ [Some s]\<rparr>,
             if agnostWrapped h then S
             else S(l := (S l)\<lparr>requestHandlers :=
                            Some (map_set ''tools/call'' (AgnostWrapped h) hs)\<rparr>))"
  proof -
    have i: "initialized a" and rh: "requestHandlers (S l) = Some hs"
      using a by blast+
    show ?thesis
      using i rh by (simp add: trackMcp_def initialize_def o wrapToolCallHandler_def)
  qed
next
  assume a: "initialized a \<and> \<not> overrideApplied a
        \<and> l2 = (case inner_server (S s2) of Some i \<Rightarrow> i | None \<Rightarrow> s2)
        \<and> (case requestHandlers (S l2) of
              None \<Rightarrow> True | Some hs2 \<Rightarrow> filter is_call_tool_key hs2 = [])"
  then have o: "overrideMcpServer a S (Some s2) = (False, a, S)"
    using overrideMcpServer_finds_nothing [where a = a and l = l2 and S = S and s = s2] by blast
  show "trackMcp a S (Some s2) orgId config
          = (a, if hasConnect (S s2)
                then S(s2 := (S s2)\<lparr>connectWrappers := Suc (connectWrappers (S s2)),
                         registerToolWrappers :=
                           (if hasRegisterTool (S s2) then Suc (registerToolWrappers (S s2))
                            else registerToolWrappers (S s2))\<rparr>)
                else S)"
    using a by (simp add: trackMcp_def initialize_def o)
next
  assume "initialized a \<and> \<not> overrideApplied a"
  then show "trackMcp a S None orgId config = (a, S)"
    by (simp add: trackMcp_def initialize_def overrideMcpServer_def)
qed

lemma tracked_client_fields:
  "tracked_client =
     \<lparr>initialized = True, overrideApplied = True, stored_server = Some 2,
      stored_config = example_config, stored_orgId = Some ''org'', initialSessions = [Some 2]\<rparr>"
  by (simp add: tracked_client_def trackMcp_def initialize_def inputs_valid_def is_space_def
      overrideMcpServer_def example_store_def bare_server_def example_config_def
      new_AgnostAnalytics_def wrapToolCallHandler_def Let_def)

lemma waiting_client_fields:
  "waiting_client =
     \<lparr>initialized = True, overrideApplied = False, stored_server = Some 1,
      stored_config = example_config, stored_orgId = Some ''org'', initialSessions = []\<rparr>"
  by (simp add: waiting_client_def trackMcp_def initialize_def inputs_valid_def is_space_def
      overrideMcpServer_def example_store_def bare_server_def example_config_def
      new_AgnostAnalytics_def wrapToolCallHandler_def Let_def)

lemma waiting_store_servers:
  "waiting_store = example_store(1 := bare_server\<lparr>connectWrappers := 1\<rparr>)"
  by (simp add: waiting_store_def trackMcp_def initialize_def inputs_valid_def is_space_def
      overrideMcpServer_def example_store_def bare_server_def example_config_def
      new_AgnostAnalytics_def Let_def)

theorem later_calls_keep_first_setup_witness:
  "initialized tracked_client \<and> overrideApplied tracked_client
   \<and> initialize tracked_client None [] None = (True, tracked_client)
   \<and> stored_server (fst (trackMcp tracked_client tracked_store (Some 1) [] None)) = Some 2
   \<and> trackMcp tracked_client tracked_store (Some 1) [] None
       = (tracked_client\<lparr>initialSessions := [Some 2, Some 1]\<rparr>, tracked_store)
   \<and> initialized waiting_client \<and> \<not> overrideApplied waiting_client
   \<and> requestHandlers (waiting_store 2)
       = Some [(''tools/list'', Original 6), (''tools/call'', Original 7)]
   \<and> trackMcp waiting_client waiting_store (Some 2) [] None
       = (waiting_client\<lparr>overrideApplied := True, initialSessions := [Some 2]\<rparr>,
          waiting_store(2 := (waiting_store 2)\<lparr>requestHandlers :=
             Some [(''tools/list'', Original 6), (''tools/call'', AgnostWrapped (Original 7))]\<rparr>))
   \<and> requestHandlers (waiting_store 1) = None \<and> hasConnect (waiting_store 1)
   \<and> trackMcp waiting_client waiting_store (Some 1) [] None
       = (waiting_client,
          waiting_store(1 := (waiting_store 1)\<lparr>connectWrappers := 2, registerToolWrappers := 0\<rparr>))
   \<and> requestHandlers (waiting_store 3) = None \<and> \<not> hasConnect (waiting_store 3)
   \<and> trackMcp waiting_client waiting_store (Some 3) [] None = (waiting_client, waiting_store)
   \<and> trackMcp waiting_client waiting_store None [] None = (waiting_client, waiting_store)"
proof -
  let ?hs = "[(''tools/list'', Original 6), (''tools/call'', Original 7)]"
  have s1: "waiting_store 1 = bare_server\<lparr>connectWrappers := 1\<rparr>"
      "waiting_store 2 = bare_server\<lparr>requestHandlers := Some ?hs\<rparr>"
      "waiting_store 3 = bare_server\<lparr>hasConnect := False\<rparr>"
    by (simp_all add: waiting_store_servers example_store_def)
  have t1: "initialized tracked_client \<and> overrideApplied tracked_client"
    by (simp add: tracked_client_fields)
  have w1: "initialized waiting_client \<and> \<not> overrideApplied waiting_client"
    by (simp add: waiting_client_fields)
  have a1: "initialize tracked_client None [] None = (True, tracked_client)"
    using later_calls_keep_first_setup [where a = tracked_client and server = None
      and orgId = "[]" and config = None] t1 by blast
  have a2: "trackMcp tracked_client tracked_store (Some 1) [] None
       = (tracked_client\<lparr>initialSessions := initialSessions tracked_client @ [Some 1]\<rparr>,
          tracked_store)"
    using later_calls_keep_first_setup [where a = tracked_client and server = "Some 1"
      and orgId = "[]" and config = None and S = tracked_store] t1 by blast
  have a3: "stored_server (fst (trackMcp tracked_client tracked_store (Some 1) [] None))
       = stored_server tracked_client"
    using later_calls_keep_first_setup [where a = tracked_client and server = "Some 1"
      and orgId = "[]" and config = None and S = tracked_store] t1 by blast
  have h4: "2 = (case inner_server (waiting_store 2) of Some i \<Rightarrow> i | None \<Rightarrow> 2)
      \<and> requestHandlers (waiting_store 2) = Some ?hs
      \<and> map_of ?hs ''tools/call'' = Some (Original 7)"
    using s1 by (simp add: bare_server_def)
  have a4: "trackMcp waiting_client waiting_store (Some 2) [] None
       = (waiting_client\<lparr>overrideApplied := True,
            initialSessions := initialSessions waiting_client @ [Some 2]\<rparr>,
          if agnostWrapped (Original 7) then waiting_store
          else waiting_store(2 := (waiting_store 2)\<lparr>requestHandlers :=
             Some (map_set ''tools/call'' (AgnostWrapped (Original 7)) ?hs)\<rparr>))"
    using later_calls_keep_first_setup [where a = waiting_client and S = waiting_store
      and l = 2 and s = 2 and hs = ?hs and h = "Original 7" and orgId = "[]" and config = None]
      w1 h4 by blast
  have h5: "1 = (case inner_server (waiting_store 1) of Some i \<Rightarrow> i | None \<Rightarrow> 1)
      \<and> (case requestHandlers (waiting_store 1) of
            None \<Rightarrow> True | Some hs2 \<Rightarrow> filter is_call_tool_key hs2 = [])"
    using s1 by (simp add: bare_server_def)
  have a5: "trackMcp waiting_client waiting_store (Some 1) [] None
       = (waiting_client,
          if hasConnect (waiting_store 1)
          then waiting_store(1 := (waiting_store 1)\<lparr>connectWrappers :=
                   Suc (connectWrappers (waiting_store 1)),
                 registerToolWrappers :=
                   (if hasRegisterTool (waiting_store 1)
                    then Suc (registerToolWrappers (waiting_store 1))
                    else registerToolWrappers (waiting_store 1))\<rparr>)
          else waiting_store)"
    using later_calls_keep_first_setup [where a = waiting_client and S = waiting_store
      and ?l2.0 = 1 and ?s2.0 = 1 and orgId = "[]" and config = None] w1 h5 by blast
  have h6: "3 = (case inner_server (waiting_store 3) of Some i \<Rightarrow> i | None \<Rightarrow> 3)
      \<and> (case requestHandlers (waiting_store 3) of
            None \<Rightarrow> True | Some hs2 \<Rightarrow> filter is_call_tool_key hs2 = [])"
    using s1 by (simp add: bare_server_def)
  have a6: "trackMcp waiting_client waiting_store (Some 3) [] None
       = (waiting_client,
          if hasConnect (waiting_store 3)
          then waiting_store(3 := (waiting_store 3)\<lparr>connectWrappers :=
                   Suc (connectWrappers (waiting_store 3)),
                 registerToolWrappers :=
                   (if hasRegisterTool (waiting_store 3)
                    then Suc (registerToolWrappers (waiting_store 3))
                    else registerToolWrappers (waiting_store 3))\<rparr>)
          else waiting_store)"
    using later_calls_keep_first_setup [where a = waiting_client and S = waiting_store
      and ?l2.0 = 3 and ?s2.0 = 3 and orgId = "[]" and config = None] w1 h6 by blast
  have a7: "trackMcp waiting_client waiting_store None [] None = (waiting_client, waiting_store)"
    using later_calls_keep_first_setup [where a = waiting_client and S = waiting_store
      and orgId = "[]" and config = None] w1 by blast
  have b2: "trackMcp tracked_client tracked_store (Some 1) [] None
       = (tracked_client\<lparr>initialSessions := [Some 2, Some 1]\<rparr>, tracked_store)"
    using a2 by (simp add: tracked_client_fields)
  have b3: "stored_server (fst (trackMcp tracked_client tracked_store (Some 1) [] None)) = Some 2"
    using a3 by (simp add: tracked_client_fields)
  have b4: "trackMcp waiting_client waiting_store (Some 2) [] None
       = (waiting_client\<lparr>overrideApplied := True, initialSessions := [Some 2]\<rparr>,
          waiting_store(2 := (waiting_store 2)\<lparr>requestHandlers :=
             Some [(''tools/list'', Original 6), (''tools/call'', AgnostWrapped (Original 7))]\<rparr>))"
    using a4 by (simp add: waiting_client_fields)
  have c1: "hasConnect (waiting_store 1)" "\<not> hasRegisterTool (waiting_store 1)"
      "connectWrappers (waiting_store 1) = 1" "registerToolWrappers (waiting_store 1) = 0"
      "requestHandlers (waiting_store 1) = None"
    using s1(1) by (simp_all add: bare_server_def)
  have c3: "\<not> hasConnect (waiting_store 3)" "requestHandlers (waiting_store 3) = None"
    using s1(3) by (simp_all add: bare_server_def)
  have b5: "trackMcp waiting_client waiting_store (Some 1) [] None
       = (waiting_client,
          waiting_store(1 := (waiting_store 1)\<lparr>connectWrappers := 2, registerToolWrappers := 0\<rparr>))"
    using a5 c1 by (simp add: numeral_2_eq_2)
  have b6: "trackMcp waiting_client waiting_store (Some 3) [] None = (waiting_client, waiting_store)"
    using a6 c3 by simp
  have c2: "requestHandlers (waiting_store 2)
       = Some [(''tools/list'', Original 6), (''tools/call'', Original 7)]"
    using s1(2) by simp
  show ?thesis
    by (intro conjI) (use t1 w1 a1 b2 b3 b4 b5 b6 a7 c1 c2 c3 in blast)+
qed

theorem second_server_wrapped_counterexample:
  "initialized waiting_client
   \<and> requestHandlers (example_store 2)
       = Some [(''tools/list'', Original 6), (''tools/call'', Original 7)]
   \<and> requestHandlers (waiting_store 2)
       = Some [(''tools/list'', Original 6), (''tools/call'', Original 7)]
   \<and> requestHandlers (snd (trackMcp waiting_client waiting_store (Some 2) ''org'' example_config) 2)
       = Some [(''tools/list'', Original 6), (''tools/call'', AgnostWrapped (Original 7))]
   \<and> overrideApplied (fst (trackMcp waiting_client waiting_store (Some 2) ''org'' example_config))"
  by (simp add: waiting_client_fields waiting_store_servers trackMcp_def initialize_def
      overrideMcpServer_def example_store_def bare_server_def wrapToolCallHandler_def Let_def)

end
